theory Spec2Isabelle
  imports Main
begin

section \<open>Python values used by the address book\<close>

text \<open>
  A Python \<open>str\<close> is a sequence of Unicode code points, so a string is modelled as a list
  of code points (natural numbers), not as a list of bytes.  \<open>py\<close> turns an ASCII literal
  into such a string.
\<close>

type_synonym pystr = "nat list"

definition py :: "string \<Rightarrow> pystr" where
  "py s = map of_char s"

text \<open>
  The exceptions the program raises or receives from the standard library, each with its
  message (\<open>str(e)\<close> of a \<open>KeyError\<close> is the \<open>repr\<close> of its argument; see \<open>input_error\<close>).
\<close>

datatype error =
    ValueError pystr
  | KeyError pystr
  | IndexError pystr
  | AttributeError pystr
  | OverflowError pystr

subsection \<open>Unicode tables of the interpreter\<close>

text \<open>
  \<open>\d\<close> in a \<open>str\<close> pattern and \<open>int()\<close> accept every Unicode decimal digit (category Nd).
  In the Unicode database the decimal digits come in runs of ten consecutive code points,
  the first of each run having the value 0.  \<open>decimal_zeros\<close> lists the first code point
  of every run (Unicode 14.0, as shipped with CPython 3.11); the ASCII digits are the run
  starting at 48.
\<close>

definition decimal_zeros :: "nat list" where
  "decimal_zeros =
    [48, 1632, 1776, 1984, 2406, 2534, 2662, 2790, 2918, 3046, 3174, 3302, 3430, 3558,
     3664, 3792, 3872, 4160, 4240, 6112, 6160, 6470, 6608, 6784, 6800, 6992, 7088, 7232,
     7248, 42528, 43216, 43264, 43472, 43504, 43600, 44016, 65296, 66720, 68912, 69734,
     69872, 69942, 70096, 70384, 70736, 70864, 71248, 71360, 71472, 71904, 72016, 72784,
     73040, 73120, 92768, 92864, 93008, 120782, 120792, 120802, 120812, 120822, 123200,
     123632, 125264, 130032]"

definition todecimal :: "nat \<Rightarrow> nat option" where
  "todecimal c =
     (case find (\<lambda>z. z \<le> c \<and> c < z + 10) decimal_zeros of
        None \<Rightarrow> None
      | Some z \<Rightarrow> Some (c - z))"

definition isdecimal :: "nat \<Rightarrow> bool" where
  "isdecimal c = (todecimal c \<noteq> None)"

text \<open>The code points for which \<open>str.isspace()\<close> holds; \<open>split()\<close> and \<open>strip()\<close> use them.\<close>

definition isspace :: "nat \<Rightarrow> bool" where
  "isspace c =
     ((9 \<le> c \<and> c \<le> 13) \<or> (28 \<le> c \<and> c \<le> 32) \<or> c = 133 \<or> c = 160 \<or> c = 5760
      \<or> (8192 \<le> c \<and> c \<le> 8202) \<or> c = 8232 \<or> c = 8233 \<or> c = 8239 \<or> c = 8287
      \<or> c = 12288)"

subsection \<open>Regular expressions\<close>

text \<open>
  The fragment of \<open>re\<close> the program and \<open>strptime\<close> use: literal characters, character
  ranges, \<open>\d\<close>, sequencing, alternation, counted repetition and named groups.  \<open>rmatch\<close>
  is a backtracking matcher: from a state (groups captured so far, rest of the input) it
  returns every way the expression can match a prefix of the rest, in the order the
  \<open>re\<close> engine tries them (the left alternative first).
\<close>

datatype rx =
    Chr nat
  | Range nat nat
  | Digit
  | Seq rx rx
  | Alt rx rx
  | Times nat rx
  | Group string rx

type_synonym mstate = "(string \<times> pystr) list \<times> pystr"

primrec rep :: "nat \<Rightarrow> ('s \<Rightarrow> 's list) \<Rightarrow> 's \<Rightarrow> 's list" where
  "rep 0 f st = [st]"
| "rep (Suc n) f st = concat (map (rep n f) (f st))"

definition one_char :: "(nat \<Rightarrow> bool) \<Rightarrow> mstate \<Rightarrow> mstate list" where
  "one_char P st =
     (case snd st of
        [] \<Rightarrow> []
      | x # xs \<Rightarrow> if P x then [(fst st, xs)] else [])"

primrec rmatch :: "rx \<Rightarrow> mstate \<Rightarrow> mstate list" where
  "rmatch (Chr k) st = one_char (\<lambda>x. x = k) st"
| "rmatch (Range lo hi) st = one_char (\<lambda>x. lo \<le> x \<and> x \<le> hi) st"
| "rmatch Digit st = one_char isdecimal st"
| "rmatch (Seq a b) st = concat (map (rmatch b) (rmatch a st))"
| "rmatch (Alt a b) st = rmatch a st @ rmatch b st"
| "rmatch (Times n a) st = rep n (rmatch a) st"
| "rmatch (Group g a) st =
     map (\<lambda>(c, r). ((g, take (length (snd st) - length r) (snd st)) # c, r)) (rmatch a st)"

text \<open>
  \<open>re.match\<close> returns the first match of a prefix; \<open>re.fullmatch\<close> the first match that
  consumes the whole string.
\<close>

definition re_match :: "rx \<Rightarrow> pystr \<Rightarrow> mstate option" where
  "re_match r s = (case rmatch r ([], s) of [] \<Rightarrow> None | m # _ \<Rightarrow> Some m)"

definition re_fullmatch :: "rx \<Rightarrow> pystr \<Rightarrow> mstate option" where
  "re_fullmatch r s = find (\<lambda>m. snd m = []) (rmatch r ([], s))"

section \<open>Fields\<close>

text \<open>\<open>Name.__init__\<close>: an empty value is rejected.\<close>

definition Name_init :: "pystr \<Rightarrow> error + pystr" where
  "Name_init v = (if v = [] then Inl (ValueError (py ''Name can't be empty'')) else Inr v)"

text \<open>\<open>Phone.__init__\<close>: the value must match \<open>\d{10}\<close> as a whole.\<close>

definition Phone_init :: "pystr \<Rightarrow> error + pystr" where
  "Phone_init phone =
     (case re_fullmatch (Times 10 Digit) phone of
        None \<Rightarrow> Inl (ValueError (py ''The phone should contain 10 digits''))
      | Some _ \<Rightarrow> Inr phone)"

text \<open>
  \<open>int()\<close> on a matched group: surrounding whitespace is ignored and every remaining
  character must be a decimal digit.  (Signs and underscores, which \<open>int()\<close> also
  accepts, never occur in a group matched by the patterns below.)
\<close>

definition digits_value :: "pystr \<Rightarrow> int" where
  "digits_value s = foldl (\<lambda>acc c. 10 * acc + int (the (todecimal c))) 0 s"

definition py_int :: "pystr \<Rightarrow> error + int" where
  "py_int s =
     (let t = rev (dropWhile isspace (rev (dropWhile isspace s)))
      in if t \<noteq> [] \<and> list_all isdecimal t then Inr (digits_value t)
         else Inl (ValueError (py ''invalid literal for int() with base 10'')))"

text \<open>\<open>str()\<close> of a non-negative integer, and zero padding to two places (\<open>%02d\<close>).\<close>

fun str_nat :: "nat \<Rightarrow> pystr" where
  "str_nat n = (if n < 10 then [48 + n] else str_nat (n div 10) @ [48 + n mod 10])"

definition str_int :: "int \<Rightarrow> pystr" where
  "str_int i = (if i < 0 then 45 # str_nat (nat (- i)) else str_nat (nat i))"

definition pad2 :: "int \<Rightarrow> pystr" where
  "pad2 i = (if 0 \<le> i \<and> i < 10 then 48 # str_int i else str_int i)"

section \<open>Calendar dates (the \<open>datetime\<close> module)\<close>

text \<open>
  A \<open>date\<close> object holds a year, a month and a day.  The functions below are those of the
  standard library's \<open>datetime\<close> module that the program calls, with the library's own
  helper names.  A value of the Python type always satisfies \<open>valid_date\<close>, because the
  constructor checks it.
\<close>

record date =
  year :: int
  month :: int
  day :: int

definition MINYEAR :: int where "MINYEAR = 1"
definition MAXYEAR :: int where "MAXYEAR = 9999"
definition MAXORDINAL :: int where "MAXORDINAL = 3652059"

definition is_leap :: "int \<Rightarrow> bool" where
  "is_leap y = (y mod 4 = 0 \<and> (y mod 100 \<noteq> 0 \<or> y mod 400 = 0))"

definition DAYS_IN_MONTH :: "int list" where
  "DAYS_IN_MONTH = [-1, 31, 28, 31, 30, 31, 30, 31, 31, 30, 31, 30, 31]"

definition DAYS_BEFORE_MONTH :: "int list" where
  "DAYS_BEFORE_MONTH = [-1, 0, 31, 59, 90, 120, 151, 181, 212, 243, 273, 304, 334]"

definition days_before_year :: "int \<Rightarrow> int" where
  "days_before_year y = (y - 1) * 365 + (y - 1) div 4 - (y - 1) div 100 + (y - 1) div 400"

definition days_in_month :: "int \<Rightarrow> int \<Rightarrow> int" where
  "days_in_month y m = (if m = 2 \<and> is_leap y then 29 else DAYS_IN_MONTH ! nat m)"

definition days_before_month :: "int \<Rightarrow> int \<Rightarrow> int" where
  "days_before_month y m = DAYS_BEFORE_MONTH ! nat m + (if m > 2 \<and> is_leap y then 1 else 0)"

definition ymd2ord :: "int \<Rightarrow> int \<Rightarrow> int \<Rightarrow> int" where
  "ymd2ord y m d = days_before_year y + days_before_month y m + d"

definition valid_date :: "date \<Rightarrow> bool" where
  "valid_date d =
     (MINYEAR \<le> year d \<and> year d \<le> MAXYEAR \<and> 1 \<le> month d \<and> month d \<le> 12
      \<and> 1 \<le> day d \<and> day d \<le> days_in_month (year d) (month d))"

text \<open>
  The constructor \<open>date(year, month, day)\<close>: the year is checked first, then the month,
  then the day against the length of the month.
\<close>

definition date_new :: "int \<Rightarrow> int \<Rightarrow> int \<Rightarrow> error + date" where
  "date_new y m d =
     (if \<not> (MINYEAR \<le> y \<and> y \<le> MAXYEAR)
        then Inl (ValueError (py ''year '' @ str_int y @ py '' is out of range''))
      else if \<not> (1 \<le> m \<and> m \<le> 12)
        then Inl (ValueError (py ''month must be in 1..12''))
      else if \<not> (1 \<le> d \<and> d \<le> days_in_month y m)
        then Inl (ValueError (py ''day is out of range for month''))
      else Inr \<lparr>year = y, month = m, day = d\<rparr>)"

text \<open>\<open>d.replace(year=y)\<close> builds a new date from the new year and the old month and day.\<close>

definition replace_year :: "date \<Rightarrow> int \<Rightarrow> error + date" where
  "replace_year d y = date_new y (month d) (day d)"

text \<open>Comparison of dates is the comparison of the triples (year, month, day).\<close>

definition date_lt :: "date \<Rightarrow> date \<Rightarrow> bool" where
  "date_lt a b =
     (year a < year b \<or> (year a = year b \<and>
        (month a < month b \<or> (month a = month b \<and> day a < day b))))"

definition toordinal :: "date \<Rightarrow> int" where
  "toordinal d = ymd2ord (year d) (month d) (day d)"

text \<open>\<open>(a - b).days\<close> for two dates.\<close>

definition days_between :: "date \<Rightarrow> date \<Rightarrow> int" where
  "days_between a b = toordinal a - toordinal b"

text \<open>\<open>d.weekday()\<close>: Monday is 0 and Sunday is 6.\<close>

definition weekday :: "date \<Rightarrow> int" where
  "weekday d = (toordinal d + 6) mod 7"

text \<open>\<open>date.fromordinal\<close>, the library's \<open>_ord2ymd\<close>.\<close>

definition ord2ymd :: "int \<Rightarrow> date" where
  "ord2ymd n0 =
     (let n = n0 - 1;
          n400 = n div 146097; n = n mod 146097;
          y = n400 * 400 + 1;
          n100 = n div 36524; n = n mod 36524;
          n4 = n div 1461; n = n mod 1461;
          n1 = n div 365; n = n mod 365;
          y = y + n100 * 100 + n4 * 4 + n1
      in if n1 = 4 \<or> n100 = 4 then \<lparr>year = y - 1, month = 12, day = 31\<rparr>
         else
           let leapyear = (n1 = 3 \<and> (n4 \<noteq> 24 \<or> n100 = 3));
               m = (n + 50) div 32;
               preceding = DAYS_BEFORE_MONTH ! nat m + (if m > 2 \<and> leapyear then 1 else 0)
           in if preceding > n
              then let m = m - 1;
                       preceding = preceding
                         - (DAYS_IN_MONTH ! nat m + (if m = 2 \<and> leapyear then 1 else 0))
                   in \<lparr>year = y, month = m, day = n - preceding + 1\<rparr>
              else \<lparr>year = y, month = m, day = n - preceding + 1\<rparr>)"

text \<open>\<open>d + timedelta(days=k)\<close>: the result must stay within the range of \<open>date\<close>.\<close>

definition add_days :: "date \<Rightarrow> int \<Rightarrow> error + date" where
  "add_days d k =
     (let ordinal = toordinal d + k
      in if 0 < ordinal \<and> ordinal \<le> MAXORDINAL then Inr (ord2ymd ordinal)
         else Inl (OverflowError (py ''date value out of range'')))"

text \<open>
  \<open>d.strftime("%d.%m.%Y")\<close>.  The day and the month are padded to two digits; the year
  is printed as the C library prints it, which is the plain decimal number (four digits
  for every year from 1000 on).
\<close>

definition strftime_dmY :: "date \<Rightarrow> pystr" where
  "strftime_dmY d = pad2 (day d) @ [46] @ pad2 (month d) @ [46] @ str_int (year d)"

text \<open>
  \<open>datetime.strptime(s, "%d.%m.%Y")\<close>.  The format is compiled to the regular expression
  \<^verbatim>\<open>(?P<d>3[0-1]|[1-2]\d|0[1-9]|[1-9]| [1-9])\.(?P<m>1[0-2]|0[1-9]|[1-9])\.(?P<Y>\d\d\d\d)\<close>
  (the \<open>IGNORECASE\<close> flag it is compiled with changes nothing: no cased character folds
  to a digit, a dot or a space).  The string must match from its start and nothing may
  remain after the match; the three groups are converted by \<open>int()\<close>, and the date is
  then built by the constructor, which rejects a day the month does not have.  The
  resulting \<open>datetime\<close> has the time 00:00:00, and the program only ever reads its date.
\<close>

definition rx_d :: rx where
  "rx_d = Group ''d''
     (Alt (Seq (Chr 51) (Range 48 49))
     (Alt (Seq (Range 49 50) Digit)
     (Alt (Seq (Chr 48) (Range 49 57))
     (Alt (Range 49 57)
          (Seq (Chr 32) (Range 49 57))))))"

definition rx_m :: rx where
  "rx_m = Group ''m''
     (Alt (Seq (Chr 49) (Range 48 50))
     (Alt (Seq (Chr 48) (Range 49 57))
          (Range 49 57)))"

definition rx_Y :: rx where
  "rx_Y = Group ''Y'' (Seq Digit (Seq Digit (Seq Digit Digit)))"

definition format_regex :: rx where
  "format_regex = Seq rx_d (Seq (Chr 46) (Seq rx_m (Seq (Chr 46) rx_Y)))"

definition group_int :: "(string \<times> pystr) list \<Rightarrow> string \<Rightarrow> error + int" where
  "group_int found g =
     (case map_of found g of
        None \<Rightarrow> Inl (IndexError (py ''no such group''))
      | Some s \<Rightarrow> py_int s)"

definition strptime_dmY :: "pystr \<Rightarrow> error + date" where
  "strptime_dmY data_string =
     (case re_match format_regex data_string of
        None \<Rightarrow> Inl (ValueError (py ''time data does not match format''))
      | Some (found, rest) \<Rightarrow>
          if rest \<noteq> [] then Inl (ValueError (py ''unconverted data remains''))
          else
            (case group_int found ''Y'' of Inl e \<Rightarrow> Inl e | Inr y \<Rightarrow>
            (case group_int found ''m'' of Inl e \<Rightarrow> Inl e | Inr m \<Rightarrow>
            (case group_int found ''d'' of Inl e \<Rightarrow> Inl e | Inr d \<Rightarrow>
               date_new y m d))))"

text \<open>
  \<open>Birthday.__init__\<close>: every \<open>ValueError\<close> of \<open>strptime\<close> is replaced by the program's own
  message; any other exception passes through.
\<close>

definition Birthday_init :: "pystr \<Rightarrow> error + date" where
  "Birthday_init v =
     (case strptime_dmY v of
        Inl (ValueError _) \<Rightarrow> Inl (ValueError (py ''Invalid date format. Use DD.MM.YYYY''))
      | Inl e \<Rightarrow> Inl e
      | Inr date_value \<Rightarrow> Inr date_value)"

section \<open>Records\<close>

text \<open>
  A \<open>Record\<close> object: the value of its \<open>Name\<close>, the values of its \<open>Phone\<close> objects in list
  order, and the date of its \<open>Birthday\<close>, if one is set.  A method that mutates the object
  returns the outcome of the call together with the object as the call leaves it, so that
  what an exception leaves behind is part of the model.
\<close>

record Record =
  name :: pystr
  phones :: "pystr list"
  birthday :: "date option"

definition Record_init :: "pystr \<Rightarrow> error + Record" where
  "Record_init n =
     (case Name_init n of
        Inl e \<Rightarrow> Inl e
      | Inr v \<Rightarrow> Inr \<lparr>name = v, phones = [], birthday = None\<rparr>)"

text \<open>
  \<open>find_phone\<close> returns the first \<open>Phone\<close> object whose value equals the argument; the
  object is identified by its position in the list.
\<close>

fun first_index :: "pystr list \<Rightarrow> pystr \<Rightarrow> nat option" where
  "first_index [] phone = None"
| "first_index (phone_obj # rest) phone =
     (if phone_obj = phone then Some 0 else map_option Suc (first_index rest phone))"

definition find_phone :: "Record \<Rightarrow> pystr \<Rightarrow> nat option" where
  "find_phone r phone = first_index (phones r) phone"

definition add_phone :: "Record \<Rightarrow> pystr \<Rightarrow> (error + unit) \<times> Record" where
  "add_phone r phone =
     (case Phone_init phone of
        Inl e \<Rightarrow> (Inl e, r)
      | Inr new_phone \<Rightarrow> (Inr (), r\<lparr>phones := phones r @ [new_phone]\<rparr>))"

text \<open>\<open>list.remove\<close> takes out the object \<open>find_phone\<close> returned, and only that one.\<close>

definition remove_phone :: "Record \<Rightarrow> pystr \<Rightarrow> (error + unit) \<times> Record" where
  "remove_phone r phone =
     (case find_phone r phone of
        None \<Rightarrow> (Inl (ValueError (py ''Phone not found'')), r)
      | Some i \<Rightarrow> (Inr (), r\<lparr>phones := take i (phones r) @ drop (Suc i) (phones r)\<rparr>))"

definition edit_phone :: "Record \<Rightarrow> pystr \<Rightarrow> pystr \<Rightarrow> (error + unit) \<times> Record" where
  "edit_phone r old_phone new_phone =
     (case find_phone r old_phone of
        None \<Rightarrow> (Inl (ValueError (py ''Phone not found'')), r)
      | Some i \<Rightarrow>
          (case Phone_init new_phone of
             Inl e \<Rightarrow> (Inl e, r)
           | Inr validated_phone \<Rightarrow> (Inr (), r\<lparr>phones := (phones r)[i := validated_phone]\<rparr>)))"

definition add_birthday :: "Record \<Rightarrow> pystr \<Rightarrow> (error + unit) \<times> Record" where
  "add_birthday r birthday_string =
     (case Birthday_init birthday_string of
        Inl e \<Rightarrow> (Inl e, r)
      | Inr d \<Rightarrow> (Inr (), r\<lparr>birthday := Some d\<rparr>))"

section \<open>The address book\<close>

text \<open>
  \<open>AddressBook\<close> is a \<open>UserDict\<close>: its \<open>data\<close> is a dictionary from names to records that
  iterates in insertion order.  It is modelled as the list of its items in that order.
  Assigning to a key that is present replaces the value where it stands; assigning to a
  new key appends an item.
\<close>

type_synonym AddressBook = "(pystr \<times> Record) list"

fun dict_set :: "AddressBook \<Rightarrow> pystr \<Rightarrow> Record \<Rightarrow> AddressBook" where
  "dict_set [] k v = [(k, v)]"
| "dict_set ((k', v') # items) k v =
     (if k' = k then (k, v) # items else (k', v') # dict_set items k v)"

fun dict_del :: "AddressBook \<Rightarrow> pystr \<Rightarrow> AddressBook" where
  "dict_del [] k = []"
| "dict_del ((k', v') # items) k =
     (if k' = k then items else (k', v') # dict_del items k)"

definition dict_values :: "AddressBook \<Rightarrow> Record list" where
  "dict_values book = map snd book"

definition add_record :: "AddressBook \<Rightarrow> Record \<Rightarrow> AddressBook" where
  "add_record book record = dict_set book (name record) record"

definition find_record :: "AddressBook \<Rightarrow> pystr \<Rightarrow> Record option" where
  "find_record book n = map_of book n"

definition delete :: "AddressBook \<Rightarrow> pystr \<Rightarrow> (error + unit) \<times> AddressBook" where
  "delete book n =
     (case find_record book n of
        None \<Rightarrow> (Inl (KeyError (py ''Record not found'')), book)
      | Some record \<Rightarrow> (Inr (), dict_del book n))"

text \<open>
  \<open>get_upcoming_birthdays\<close>, with the date \<open>datetime.today().date()\<close> as a parameter.
  Each item of the result is a dictionary with the keys \<open>name\<close> and
  \<open>congratulation_date\<close>.  \<open>upcoming_loop\<close> is the \<open>for\<close> loop over the values of the
  book, with \<open>result\<close> as the list built so far; an exception raised in the body ends the
  call.
\<close>

record upcoming =
  entry_name :: pystr
  congratulation_date :: pystr

fun upcoming_loop :: "date \<Rightarrow> Record list \<Rightarrow> upcoming list \<Rightarrow> error + upcoming list" where
  "upcoming_loop today_date [] result = Inr result"
| "upcoming_loop today_date (record # rest) result =
     (case birthday record of
        None \<Rightarrow> upcoming_loop today_date rest result
      | Some birthday_date \<Rightarrow>
          (case replace_year birthday_date (year today_date) of
             Inl e \<Rightarrow> Inl e
           | Inr this_year \<Rightarrow>
               (case (if date_lt this_year today_date
                      then replace_year this_year (year today_date + 1)
                      else Inr this_year) of
                  Inl e \<Rightarrow> Inl e
                | Inr current_year_birthday_date \<Rightarrow>
                    (let days_diff = days_between current_year_birthday_date today_date
                     in if 0 \<le> days_diff \<and> days_diff \<le> 7
                        then
                          (case (if weekday current_year_birthday_date = 5
                                   then add_days current_year_birthday_date 2
                                 else if weekday current_year_birthday_date = 6
                                   then add_days current_year_birthday_date 1
                                 else Inr current_year_birthday_date) of
                             Inl e \<Rightarrow> Inl e
                           | Inr congratulation \<Rightarrow>
                               upcoming_loop today_date rest
                                 (result @
                                   [\<lparr>entry_name = name record,
                                     congratulation_date = strftime_dmY congratulation\<rparr>]))
                        else upcoming_loop today_date rest result))))"

definition get_upcoming_birthdays :: "date \<Rightarrow> AddressBook \<Rightarrow> error + upcoming list" where
  "get_upcoming_birthdays today_date book = upcoming_loop today_date (dict_values book) []"

section \<open>Command handlers\<close>

text \<open>
  The decorator \<open>input_error\<close>: an \<open>AttributeError\<close> becomes the message for a missing
  contact; a \<open>KeyError\<close>, \<open>ValueError\<close> or \<open>IndexError\<close> becomes \<open>Error: \<close> followed by
  \<open>str(e)\<close>, which for a \<open>KeyError\<close> is its message in quotes; any other exception passes
  through.  The decorated function returns the message string where it would have
  returned its own kind of value; \<open>inject\<close> says how that string sits among those values.
\<close>

definition input_error :: "(pystr \<Rightarrow> 'a) \<Rightarrow> error + 'a \<Rightarrow> error + 'a" where
  "input_error inject outcome =
     (case outcome of
        Inr v \<Rightarrow> Inr v
      | Inl (AttributeError _) \<Rightarrow> Inr (inject (py ''Error: Contact not found''))
      | Inl (KeyError m) \<Rightarrow> Inr (inject (py ''Error: '' @ [39] @ m @ [39]))
      | Inl (ValueError m) \<Rightarrow> Inr (inject (py ''Error: '' @ m))
      | Inl (IndexError m) \<Rightarrow> Inr (inject (py ''Error: '' @ m))
      | Inl e \<Rightarrow> Inl e)"

text \<open>
  A handler takes the argument list and the book, and returns its outcome with the book
  as the call leaves it.  A record obtained by \<open>find\<close> or just stored by \<open>add_record\<close> is the
  object the book holds under that name, so a mutation of the record is a change of the
  value stored under the name.
\<close>

type_synonym handler_result = "(error + pystr) \<times> AddressBook"

definition none_attribute :: "string \<Rightarrow> error" where
  "none_attribute a =
     AttributeError
       ([39] @ py ''NoneType'' @ [39] @ py '' object has no attribute '' @ [39] @ py a @ [39])"

definition add_contact_body :: "pystr list \<Rightarrow> AddressBook \<Rightarrow> handler_result" where
  "add_contact_body args book =
     (case args of
        n # phone # _ \<Rightarrow>
          (case (case find_record book n of
                   Some record \<Rightarrow> Inr (record, py ''Contact updated.'', book)
                 | None \<Rightarrow>
                     (case Record_init n of
                        Inl e \<Rightarrow> Inl e
                      | Inr record \<Rightarrow>
                          Inr (record, py ''Contact added.'', add_record book record))) of
             Inl e \<Rightarrow> (Inl e, book)
           | Inr (record, message, book') \<Rightarrow>
               if phone \<noteq> []
               then (case add_phone record phone of
                       (Inl e, record') \<Rightarrow> (Inl e, dict_set book' n record')
                     | (Inr _, record') \<Rightarrow> (Inr message, dict_set book' n record'))
               else (Inr message, book'))
      | _ \<Rightarrow> (Inl (ValueError (py ''Usage: add [name] [phone]'')), book))"

definition add_contact :: "pystr list \<Rightarrow> AddressBook \<Rightarrow> handler_result" where
  "add_contact args book = apfst (input_error id) (add_contact_body args book)"

definition change_contact_body :: "pystr list \<Rightarrow> AddressBook \<Rightarrow> handler_result" where
  "change_contact_body args book =
     (case args of
        n # old_phone # new_phone # _ \<Rightarrow>
          (case find_record book n of
             None \<Rightarrow> (Inl (none_attribute ''edit_phone''), book)
           | Some record \<Rightarrow>
               (case edit_phone record old_phone new_phone of
                  (Inl e, record') \<Rightarrow> (Inl e, dict_set book n record')
                | (Inr _, record') \<Rightarrow> (Inr (py ''Phone updated.''), dict_set book n record')))
      | _ \<Rightarrow> (Inl (ValueError (py ''Usage: change [name] [old_phone] [new_phone]'')), book))"

definition change_contact :: "pystr list \<Rightarrow> AddressBook \<Rightarrow> handler_result" where
  "change_contact args book = apfst (input_error id) (change_contact_body args book)"

text \<open>\<open>sep.join(xs)\<close>.\<close>

fun join :: "pystr \<Rightarrow> pystr list \<Rightarrow> pystr" where
  "join sep [] = []"
| "join sep [x] = x"
| "join sep (x # y # ys) = x @ sep @ join sep (y # ys)"

definition show_phones_body :: "pystr list \<Rightarrow> AddressBook \<Rightarrow> handler_result" where
  "show_phones_body args book =
     (case args of
        n # _ \<Rightarrow>
          (case find_record book n of
             None \<Rightarrow> (Inl (none_attribute ''phones''), book)
           | Some record \<Rightarrow>
               if phones record = [] then (Inr (py ''No phones found.''), book)
               else (Inr (join (py ''; '') (phones record)), book))
      | _ \<Rightarrow> (Inl (ValueError (py ''Usage: phone [name]'')), book))"

definition show_phones :: "pystr list \<Rightarrow> AddressBook \<Rightarrow> handler_result" where
  "show_phones args book = apfst (input_error id) (show_phones_body args book)"

definition show_all_line :: "Record \<Rightarrow> pystr" where
  "show_all_line record =
     name record @ py '': '' @ join (py ''; '') (phones record) @ py ''; Birthday: '' @
     (case birthday record of
        Some d \<Rightarrow> strftime_dmY d
      | None \<Rightarrow> py ''No birthday'')"

definition show_all_body :: "pystr list \<Rightarrow> AddressBook \<Rightarrow> handler_result" where
  "show_all_body args book =
     (if book = [] then (Inr (py ''No contacts in address book.''), book)
      else (Inr (join [10] (map show_all_line (dict_values book))), book))"

definition show_all :: "pystr list \<Rightarrow> AddressBook \<Rightarrow> handler_result" where
  "show_all args book = apfst (input_error id) (show_all_body args book)"

definition add_birthday_body :: "pystr list \<Rightarrow> AddressBook \<Rightarrow> handler_result" where
  "add_birthday_body args book =
     (case args of
        n # birthday_string # _ \<Rightarrow>
          (case find_record book n of
             None \<Rightarrow> (Inl (none_attribute ''add_birthday''), book)
           | Some record \<Rightarrow>
               (case add_birthday record birthday_string of
                  (Inl e, record') \<Rightarrow> (Inl e, dict_set book n record')
                | (Inr _, record') \<Rightarrow> (Inr (py ''Birthday added.''), dict_set book n record')))
      | _ \<Rightarrow> (Inl (ValueError (py ''Usage: add-birthday [name] [DD.MM.YYYY]'')), book))"

definition add_birthday_handler :: "pystr list \<Rightarrow> AddressBook \<Rightarrow> handler_result" where
  "add_birthday_handler args book = apfst (input_error id) (add_birthday_body args book)"

definition show_birthday_body :: "pystr list \<Rightarrow> AddressBook \<Rightarrow> handler_result" where
  "show_birthday_body args book =
     (case args of
        n # _ \<Rightarrow>
          (case find_record book n of
             None \<Rightarrow> (Inl (none_attribute ''birthday''), book)
           | Some record \<Rightarrow>
               (case birthday record of
                  None \<Rightarrow> (Inr (py ''No birthday set.''), book)
                | Some d \<Rightarrow> (Inr (strftime_dmY d), book)))
      | _ \<Rightarrow> (Inl (ValueError (py ''Usage: show-birthday [name]'')), book))"

definition show_birthday :: "pystr list \<Rightarrow> AddressBook \<Rightarrow> handler_result" where
  "show_birthday args book = apfst (input_error id) (show_birthday_body args book)"

definition birthdays_body :: "date \<Rightarrow> pystr list \<Rightarrow> AddressBook \<Rightarrow> handler_result" where
  "birthdays_body today_date args book =
     (case get_upcoming_birthdays today_date book of
        Inl e \<Rightarrow> (Inl e, book)
      | Inr upcoming \<Rightarrow>
          if upcoming = [] then (Inr (py ''No birthdays in the next 7 days.''), book)
          else (Inr (join [10]
                  (map (\<lambda>item. entry_name item @ py '': '' @ congratulation_date item)
                     upcoming)), book))"

definition birthdays :: "date \<Rightarrow> pystr list \<Rightarrow> AddressBook \<Rightarrow> handler_result" where
  "birthdays today_date args book =
     apfst (input_error id) (birthdays_body today_date args book)"

section \<open>Reading and dispatching a command\<close>

text \<open>
  \<open>s.split()\<close> cuts the string at runs of whitespace and returns the non-empty pieces;
  \<open>s.strip()\<close> removes the whitespace at both ends.  \<open>split_from cur s\<close> is the scan with
  \<open>cur\<close> as the piece being read.
\<close>

fun split_from :: "pystr \<Rightarrow> pystr \<Rightarrow> pystr list" where
  "split_from cur [] = (if cur = [] then [] else [cur])"
| "split_from cur (c # cs) =
     (if isspace c
      then (if cur = [] then split_from [] cs else cur # split_from [] cs)
      else split_from (cur @ [c]) cs)"

definition split :: "pystr \<Rightarrow> pystr list" where
  "split s = split_from [] s"

definition strip :: "pystr \<Rightarrow> pystr" where
  "strip s = rev (dropWhile isspace (rev (dropWhile isspace s)))"

text \<open>
  What \<open>parse_input\<close> returns: the tuple \<open>(cmd, *args)\<close>, or, through the decorator, a
  string.  \<open>str.lower\<close> follows the interpreter's Unicode case tables, which are a
  parameter of the model.
\<close>

datatype parsed = Tuple "pystr list" | Str pystr

definition parse_input_body :: "(pystr \<Rightarrow> pystr) \<Rightarrow> pystr \<Rightarrow> error + parsed" where
  "parse_input_body lower user_input =
     (case split user_input of
        [] \<Rightarrow> Inl (ValueError (py ''not enough values to unpack (expected at least 1, got 0)''))
      | cmd # args \<Rightarrow> Inr (Tuple (lower (strip cmd) # args)))"

definition parse_input :: "(pystr \<Rightarrow> pystr) \<Rightarrow> pystr \<Rightarrow> error + parsed" where
  "parse_input lower user_input = input_error Str (parse_input_body lower user_input)"

text \<open>
  \<open>command, *args = ...\<close> in \<open>main\<close>: a tuple gives its first element and the rest; a
  string gives its first character and the remaining characters, each as a string of
  length one.
\<close>

definition unpack :: "parsed \<Rightarrow> error + pystr \<times> pystr list" where
  "unpack v =
     (case v of
        Tuple (c # rest) \<Rightarrow> Inr (c, rest)
      | Str (c # rest) \<Rightarrow> Inr ([c], map (\<lambda>x. [x]) rest)
      | _ \<Rightarrow> Inl (ValueError (py ''not enough values to unpack (expected at least 1, got 0)'')))"

text \<open>
  One turn of the loop in \<open>main\<close>: the lines printed, the book afterwards, and whether the
  loop was left (after \<open>save_data\<close>, which writes the book to a file).  An exception that
  no decorator catches ends the program.  \<open>dispatch\<close> is the \<open>match\<close> statement.
\<close>

record turn =
  printed :: "pystr list"
  book_after :: AddressBook
  finished :: bool

definition print_result :: "handler_result \<Rightarrow> error + turn" where
  "print_result hr =
     (case hr of
        (Inl e, book) \<Rightarrow> Inl e
      | (Inr text, book) \<Rightarrow> Inr \<lparr>printed = [text], book_after = book, finished = False\<rparr>)"

definition dispatch :: "date \<Rightarrow> pystr \<Rightarrow> pystr list \<Rightarrow> AddressBook \<Rightarrow> error + turn" where
  "dispatch today_date command args book =
     (if command = py ''close'' \<or> command = py ''exit''
        then Inr \<lparr>printed = [py ''Good bye!''], book_after = book, finished = True\<rparr>
      else if command = py ''hello''
        then Inr \<lparr>printed = [py ''How can I help you?''], book_after = book,
                  finished = False\<rparr>
      else if command = py ''add'' then print_result (add_contact args book)
      else if command = py ''change'' then print_result (change_contact args book)
      else if command = py ''phone'' then print_result (show_phones args book)
      else if command = py ''all'' then print_result (show_all args book)
      else if command = py ''add-birthday''
        then print_result (add_birthday_handler args book)
      else if command = py ''show-birthday''
        then print_result (show_birthday args book)
      else if command = py ''birthdays''
        then print_result (birthdays today_date args book)
      else Inr \<lparr>printed = [py ''Invalid command.''], book_after = book,
                finished = False\<rparr>)"

definition main_turn ::
  "(pystr \<Rightarrow> pystr) \<Rightarrow> date \<Rightarrow> pystr \<Rightarrow> AddressBook \<Rightarrow> error + turn" where
  "main_turn lower today_date user_input book =
     (case parse_input lower user_input of
        Inl e \<Rightarrow> Inl e
      | Inr v \<Rightarrow>
          (case unpack v of
             Inl e \<Rightarrow> Inl e
           | Inr (command, args) \<Rightarrow> dispatch today_date command args book))"

section \<open>Notions of the specification\<close>

text \<open>
  The definitions of this section follow the words of the specification, not the code;
  the theorems compare the code with them.

  A phone number is a string of exactly ten decimal digits.
\<close>

definition valid_phone :: "pystr \<Rightarrow> bool" where
  "valid_phone p = (length p = 10 \<and> list_all isdecimal p)"

text \<open>The invariant of the phones of a record, and of all records of a book.\<close>

definition record_valid :: "Record \<Rightarrow> bool" where
  "record_valid r = (\<forall>p \<in> set (phones r). valid_phone p)"

definition phones_valid :: "AddressBook \<Rightarrow> bool" where
  "phones_valid book = (\<forall>(k, r) \<in> set book. record_valid r)"

text \<open>The record a book holds under a name, or a new record of that name if it holds none.\<close>

definition record_for :: "AddressBook \<Rightarrow> pystr \<Rightarrow> Record" where
  "record_for book n =
     (case find_record book n of
        None \<Rightarrow> \<lparr>name = n, phones = [], birthday = None\<rparr>
      | Some r \<Rightarrow> r)"

text \<open>
  The candidate date of a birthday: its day and month at today's year, and at the
  following year when that date is strictly before today.  These are plain triples; whether
  such a day exists in the calendar is what \<open>dates_exist\<close> says.
\<close>

definition this_year_date :: "date \<Rightarrow> date \<Rightarrow> date" where
  "this_year_date today b = \<lparr>year = year today, month = month b, day = day b\<rparr>"

definition target_year :: "date \<Rightarrow> date \<Rightarrow> int" where
  "target_year today b =
     (if date_lt (this_year_date today b) today then year today + 1 else year today)"

definition candidate :: "date \<Rightarrow> date \<Rightarrow> date" where
  "candidate today b = \<lparr>year = target_year today b, month = month b, day = day b\<rparr>"

definition dates_exist :: "date \<Rightarrow> date \<Rightarrow> bool" where
  "dates_exist today b = (valid_date (this_year_date today b) \<and> valid_date (candidate today b))"

definition in_window :: "date \<Rightarrow> date \<Rightarrow> bool" where
  "in_window today b =
     (0 \<le> days_between (candidate today b) today \<and> days_between (candidate today b) today \<le> 7)"

definition has_upcoming :: "date \<Rightarrow> Record \<Rightarrow> bool" where
  "has_upcoming today r = (case birthday r of None \<Rightarrow> False | Some b \<Rightarrow> in_window today b)"

text \<open>The weekend shift: a Saturday moves two days on, a Sunday one day.\<close>

definition plus_days :: "date \<Rightarrow> int \<Rightarrow> date" where
  "plus_days d k = ord2ymd (toordinal d + k)"

definition shifted :: "date \<Rightarrow> date" where
  "shifted c =
     (if weekday c = 5 then plus_days c 2 else if weekday c = 6 then plus_days c 1 else c)"

definition expected_entry :: "date \<Rightarrow> Record \<Rightarrow> upcoming" where
  "expected_entry today r =
     \<lparr>entry_name = name r,
      congratulation_date =
        (case birthday r of
           None \<Rightarrow> []
         | Some b \<Rightarrow> strftime_dmY (shifted (candidate today b)))\<rparr>"

text \<open>A well-formed \<open>DD.MM.YYYY\<close> string, given by its eight digits.\<close>

definition dd_mm_yyyy :: "nat \<Rightarrow> nat \<Rightarrow> nat \<Rightarrow> nat \<Rightarrow> nat \<Rightarrow> nat \<Rightarrow> nat \<Rightarrow> nat \<Rightarrow> pystr" where
  "dd_mm_yyyy d1 d2 m1 m2 y1 y2 y3 y4 =
     [48 + d1, 48 + d2, 46, 48 + m1, 48 + m2, 46, 48 + y1, 48 + y2, 48 + y3, 48 + y4]"

definition date_of_digits :: "nat \<Rightarrow> nat \<Rightarrow> nat \<Rightarrow> nat \<Rightarrow> nat \<Rightarrow> nat \<Rightarrow> nat \<Rightarrow> nat \<Rightarrow> date" where
  "date_of_digits d1 d2 m1 m2 y1 y2 y3 y4 =
     \<lparr>year = int (1000 * y1 + 100 * y2 + 10 * y3 + y4),
      month = int (10 * m1 + m2),
      day = int (10 * d1 + d2)\<rparr>"

text \<open>
  The states of a record and of the book that the program can reach: a record is made by
  its constructor and changed by its methods, whatever their arguments and whether they
  return or raise; a book starts empty and is changed by \<open>add_record\<close>, by \<open>delete\<close>, by a
  method call on a record it holds, and by the commands of the main loop.
\<close>

inductive record_step :: "Record \<Rightarrow> Record \<Rightarrow> bool" where
  by_add_phone: "add_phone r p = (outcome, r') \<Longrightarrow> record_step r r'"
| by_remove_phone: "remove_phone r p = (outcome, r') \<Longrightarrow> record_step r r'"
| by_edit_phone: "edit_phone r p q = (outcome, r') \<Longrightarrow> record_step r r'"
| by_add_birthday: "add_birthday r s = (outcome, r') \<Longrightarrow> record_step r r'"

inductive reachable_record :: "Record \<Rightarrow> bool" where
  constructed: "Record_init n = Inr r \<Longrightarrow> reachable_record r"
| mutated: "reachable_record r \<Longrightarrow> record_step r r' \<Longrightarrow> reachable_record r'"

inductive reachable :: "AddressBook \<Rightarrow> bool" where
  start: "reachable []"
| after_add_record: "reachable book \<Longrightarrow> reachable_record r \<Longrightarrow> reachable (add_record book r)"
| after_delete: "reachable book \<Longrightarrow> delete book n = (outcome, book') \<Longrightarrow> reachable book'"
| after_method:
    "reachable book \<Longrightarrow> find_record book n = Some r \<Longrightarrow> record_step r r' \<Longrightarrow>
     reachable (dict_set book n r')"
| after_command:
    "reachable book \<Longrightarrow> main_turn lower today_date user_input book = Inr t \<Longrightarrow>
     reachable (book_after t)"

section \<open>Phone numbers\<close>

lemma rmatch_Times_Digit:
  "rmatch (Times n Digit) (c, s) =
     (if n \<le> length s \<and> list_all isdecimal (take n s) then [(c, drop n s)] else [])"
proof (induction n arbitrary: s)
  case 0
  show ?case by simp
next
  case (Suc n)
  show ?case
  proof (cases s)
    case Nil
    then show ?thesis by (simp add: one_char_def)
  next
    case (Cons x xs)
    have step: "rep (Suc n) (rmatch Digit) (c, x # xs) =
                (if isdecimal x then rmatch (Times n Digit) (c, xs) else [])"
      by (simp add: one_char_def)
    show ?thesis
      using Suc.IH [of xs] step Cons by simp
  qed
qed

lemma Phone_init_iff:
  "Phone_init p =
     (if valid_phone p then Inr p
      else Inl (ValueError (py ''The phone should contain 10 digits'')))"
proof -
  have "re_fullmatch (Times 10 Digit) p =
        (if length p = 10 \<and> list_all isdecimal p then Some ([], []) else None)"
    unfolding re_fullmatch_def rmatch_Times_Digit by auto
  then show ?thesis by (simp add: Phone_init_def valid_phone_def)
qed

lemma isdecimal_ascii: "48 \<le> c \<Longrightarrow> c \<le> 57 \<Longrightarrow> isdecimal c"
  by (simp add: isdecimal_def todecimal_def decimal_zeros_def)

text \<open>
  Claim C4.  The \<open>Phone\<close> constructor accepts every string of exactly ten decimal digits
  and stores it unchanged; it raises \<open>ValueError\<close> (the invalid-value error) for every
  string whose length is not ten or that contains a character that is not a decimal
  digit.  A decimal digit is what \<open>\d\<close> matches: a Unicode decimal digit, of which the
  ASCII digits are ten.
\<close>

theorem validate_phone_correct:
  "(length p = 10 \<and> (\<forall>c \<in> set p. isdecimal c) \<longrightarrow> Phone_init p = Inr p) \<and>
   (length p \<noteq> 10 \<or> (\<exists>c \<in> set p. \<not> isdecimal c) \<longrightarrow>
      Phone_init p = Inl (ValueError (py ''The phone should contain 10 digits'')))"
  by (auto simp: Phone_init_iff valid_phone_def list_all_iff)

theorem validate_phone_correct_witness:
  "Phone_init (py ''1234567890'') = Inr (py ''1234567890'') \<and>
   Phone_init (py ''12345'') = Inl (ValueError (py ''The phone should contain 10 digits'')) \<and>
   Phone_init (py ''12345678a0'') = Inl (ValueError (py ''The phone should contain 10 digits''))"
proof -
  have a: "length (py ''1234567890'') = 10 \<and> (\<forall>c \<in> set (py ''1234567890''). isdecimal c)"
    by (auto simp: py_def intro: isdecimal_ascii)
  have b: "length (py ''12345'') \<noteq> 10" by (simp add: py_def)
  have c: "\<exists>c \<in> set (py ''12345678a0''). \<not> isdecimal c"
    by (simp add: py_def isdecimal_def todecimal_def decimal_zeros_def)
  show ?thesis
    using validate_phone_correct [of "py ''1234567890''"] validate_phone_correct [of "py ''12345''"]
      validate_phone_correct [of "py ''12345678a0''"] a b c by blast
qed

section \<open>Missing phones and missing contacts\<close>

lemma first_index_None: "p \<notin> set xs \<Longrightarrow> first_index xs p = None"
  by (induction xs) auto

lemma first_index_Some: "first_index xs p = Some i \<Longrightarrow> i < length xs \<and> xs ! i = p"
  by (induction xs arbitrary: i) (auto split: if_splits)

text \<open>
  Claim C6.  When the old value is not among the phones of a record, \<open>edit_phone\<close> raises
  the not-found error (\<open>ValueError\<close> with the message \<open>Phone not found\<close>), whatever the new
  value is, and the record, its phone sequence included, is left as it was.
\<close>

theorem edit_phone_not_found:
  "old_phone \<notin> set (phones r) \<Longrightarrow>
     edit_phone r old_phone new_phone = (Inl (ValueError (py ''Phone not found'')), r)"
  by (simp add: edit_phone_def find_phone_def first_index_None)

theorem edit_phone_not_found_witness:
  "py ''0000000000'' \<notin>
     set (phones \<lparr>name = py ''Jane'', phones = [py ''1234567890''], birthday = None\<rparr>) \<and>
   edit_phone \<lparr>name = py ''Jane'', phones = [py ''1234567890''], birthday = None\<rparr>
       (py ''0000000000'') (py ''1112223334'') =
     (Inl (ValueError (py ''Phone not found'')),
      \<lparr>name = py ''Jane'', phones = [py ''1234567890''], birthday = None\<rparr>)"
proof -
  have h: "py ''0000000000'' \<notin>
      set (phones \<lparr>name = py ''Jane'', phones = [py ''1234567890''], birthday = None\<rparr>)"
    by (simp add: py_def)
  show ?thesis using h edit_phone_not_found [OF h] by simp
qed

lemma find_record_None: "n \<notin> fst ` set book \<Longrightarrow> find_record book n = None"
  by (simp add: find_record_def map_of_eq_None_iff)

text \<open>
  Claim C8.  On a book that holds no record under the given name, the empty book among
  them, \<open>delete\<close> raises \<open>KeyError\<close> with the message \<open>Record not found\<close> and leaves the
  book as it was, and \<open>find\<close> returns \<open>None\<close> without raising.  The \<open>KeyError\<close> is not a
  \<open>ValueError\<close>, the exception of the validators.
\<close>

theorem delete_absent:
  "n \<notin> fst ` set book \<Longrightarrow>
     delete book n = (Inl (KeyError (py ''Record not found'')), book) \<and>
     find_record book n = None \<and>
     KeyError (py ''Record not found'') \<noteq> ValueError m"
  by (simp add: delete_def find_record_None)

theorem delete_absent_witness:
  "delete [] (py ''ghost'') = (Inl (KeyError (py ''Record not found'')), []) \<and>
   find_record [] (py ''ghost'') = None"
  using delete_absent [of "py ''ghost''" "[]"] by simp

section \<open>A blank input line\<close>

lemma split_from_spaces: "list_all isspace s \<Longrightarrow> split_from [] s = []"
  by (induction s) auto

lemma py_Cons: "py (c # cs) = of_char c # py cs"
  by (simp add: py_def)

lemma py_Nil: "py [] = []"
  by (simp add: py_def)

text \<open>
  Claim C10.  For an input line that is empty or consists of whitespace only,
  \<open>parse_input\<close> does not raise: the decorator turns the failed unpacking into the one
  string \<open>Error: not enough values to unpack (expected at least 1, got 0)\<close>, which is
  returned in place of the tuple.  Unpacking that string in \<open>main\<close> gives its first
  character \<open>E\<close> as the command, and the turn prints \<open>Invalid command.\<close> and changes
  nothing.
\<close>

theorem parse_input_blank:
  "\<forall>c \<in> set user_input. isspace c \<Longrightarrow>
     parse_input lower user_input =
       Inr (Str (py ''Error: not enough values to unpack (expected at least 1, got 0)'')) \<and>
     map_sum id fst
       (unpack (Str (py ''Error: not enough values to unpack (expected at least 1, got 0)''))) =
       Inr (py ''E'') \<and>
     main_turn lower today_date user_input book =
       Inr \<lparr>printed = [py ''Invalid command.''], book_after = book, finished = False\<rparr>"
proof -
  assume "\<forall>c \<in> set user_input. isspace c"
  then have sp: "split user_input = []"
    by (simp add: split_def split_from_spaces list_all_iff)
  have p: "parse_input lower user_input =
       Inr (Str (py ''Error: not enough values to unpack (expected at least 1, got 0)''))"
    by (simp add: parse_input_def parse_input_body_def sp input_error_def py_def)
  have u: "unpack (Str (py ''Error: not enough values to unpack (expected at least 1, got 0)''))
      = Inr (py ''E'',
          map (\<lambda>x. [x]) (py ''rror: not enough values to unpack (expected at least 1, got 0)''))"
    by (simp add: unpack_def py_Cons py_Nil)
  have m: "main_turn lower today_date user_input book =
       Inr \<lparr>printed = [py ''Invalid command.''], book_after = book, finished = False\<rparr>"
    by (simp only: main_turn_def p u sum.case prod.case) (simp add: dispatch_def py_Cons py_Nil)
  show ?thesis using p u m by simp
qed

theorem parse_input_blank_witness:
  "parse_input id [32, 9, 32] =
     Inr (Str (py ''Error: not enough values to unpack (expected at least 1, got 0)'')) \<and>
   main_turn id \<lparr>year = 2024, month = 6, day = 10\<rparr> [32, 9, 32] [] =
     Inr \<lparr>printed = [py ''Invalid command.''], book_after = [], finished = False\<rparr> \<and>
   main_turn id \<lparr>year = 2024, month = 6, day = 10\<rparr> [] [] =
     Inr \<lparr>printed = [py ''Invalid command.''], book_after = [], finished = False\<rparr>"
proof -
  have h: "\<forall>c \<in> set [32, 9, 32]. isspace c" by (simp add: isspace_def)
  have e: "\<forall>c \<in> set []. isspace c" by simp
  show ?thesis
    using parse_input_blank [OF h, of id "\<lparr>year = 2024, month = 6, day = 10\<rparr>" "[]"]
      parse_input_blank [OF e, of id "\<lparr>year = 2024, month = 6, day = 10\<rparr>" "[]"]
    by simp
qed

section \<open>The book as a dictionary\<close>

lemma find_dict_set_same: "find_record (dict_set book k v) k = Some v"
  by (induction book k v rule: dict_set.induct) (auto simp: find_record_def)

lemma find_dict_set_other: "k' \<noteq> k \<Longrightarrow> find_record (dict_set book k v) k' = find_record book k'"
  by (induction book k v rule: dict_set.induct) (auto simp: find_record_def)

lemma keys_dict_set:
  "map fst (dict_set book k v) =
     (if k \<in> fst ` set book then map fst book else map fst book @ [k])"
  by (induction book k v rule: dict_set.induct) auto

lemma distinct_dict_set: "distinct (map fst book) \<Longrightarrow> distinct (map fst (dict_set book k v))"
  by (simp add: keys_dict_set)

lemma dict_set_twice: "dict_set (dict_set book k v) k w = dict_set book k w"
  by (induction book k v rule: dict_set.induct) auto

lemma filter_absent: "k \<notin> fst ` set book \<Longrightarrow> filter (\<lambda>(k', v). k' = k) book = []"
  by (induction book) auto

lemma filter_dict_set:
  "distinct (map fst book) \<Longrightarrow> filter (\<lambda>(k', v'). k' = k) (dict_set book k v) = [(k, v)]"
  by (induction book k v rule: dict_set.induct) (auto simp: filter_absent)

lemma set_dict_set: "set (dict_set book k v) \<subseteq> insert (k, v) (set book)"
  by (induction book k v rule: dict_set.induct) auto

lemma set_dict_del: "set (dict_del book k) \<subseteq> set book"
  by (induction book k rule: dict_del.induct) auto

section \<open>Adding a contact twice\<close>

lemma Record_init_ok: "n \<noteq> [] \<Longrightarrow> Record_init n = Inr \<lparr>name = n, phones = [], birthday = None\<rparr>"
  by (simp add: Record_init_def Name_init_def)

lemma valid_phone_nonempty: "valid_phone p \<Longrightarrow> p \<noteq> []"
  by (auto simp: valid_phone_def)

lemma add_contact_ok:
  assumes "n \<noteq> []" and "valid_phone p"
  shows "add_contact (n # p # rest) book =
    (Inr (if find_record book n = None then py ''Contact added.'' else py ''Contact updated.''),
     dict_set book n ((record_for book n)\<lparr>phones := phones (record_for book n) @ [p]\<rparr>))"
  using assms
  by (auto simp: add_contact_def add_contact_body_def Record_init_ok valid_phone_nonempty
      add_phone_def Phone_init_iff add_record_def dict_set_twice input_error_def record_for_def
      split: option.splits)

text \<open>
  Claim C5.  \<open>add_record\<close> cannot fail (it returns the new book and nothing else); it
  stores the record under its name, replacing whatever was there, leaves every other name
  as it was and keeps the names unique.  Two \<open>add\<close> commands for the same non-empty name
  with valid phones both succeed, and afterwards the book holds exactly one record under
  that name, whose phones are those the name had before (none, if the name was new)
  followed by the two phones.
\<close>

theorem add_twice_one_record:
  assumes "distinct (map fst book)" and "n \<noteq> []" and "valid_phone p1" and "valid_phone p2"
  shows "find_record (add_record book r) (name r) = Some r \<and>
         (k \<noteq> name r \<longrightarrow> find_record (add_record book r) k = find_record book k) \<and>
         distinct (map fst (add_record book r)) \<and>
         (\<exists>m1 b1 m2 b2 r2.
            add_contact [n, p1] book = (Inr m1, b1) \<and>
            add_contact [n, p2] b1 = (Inr m2, b2) \<and>
            filter (\<lambda>(k, v). k = n) b2 = [(n, r2)] \<and>
            find_record b2 n = Some r2 \<and>
            phones r2 = phones (record_for book n) @ [p1, p2])"
proof -
  let ?r1 = "(record_for book n)\<lparr>phones := phones (record_for book n) @ [p1]\<rparr>"
  let ?b1 = "dict_set book n ?r1"
  let ?r2 = "?r1\<lparr>phones := phones ?r1 @ [p2]\<rparr>"
  let ?b2 = "dict_set book n ?r2"
  have f1: "record_for ?b1 n = ?r1"
    by (simp add: record_for_def find_dict_set_same)
  have s1: "add_contact [n, p1] book =
      (Inr (if find_record book n = None then py ''Contact added.''
            else py ''Contact updated.''), ?b1)"
    using assms(2,3) by (rule add_contact_ok)
  have s2: "add_contact [n, p2] ?b1 = (Inr (py ''Contact updated.''), ?b2)"
    using assms add_contact_ok [of n p2 "[]" ?b1]
    by (simp add: f1 dict_set_twice find_dict_set_same)
  have "filter (\<lambda>(k, v). k = n) ?b2 = [(n, ?r2)]"
    using assms(1) by (rule filter_dict_set)
  moreover have "find_record ?b2 n = Some ?r2" by (rule find_dict_set_same)
  moreover have "phones ?r2 = phones (record_for book n) @ [p1, p2]" by simp
  ultimately have "\<exists>m1 b1 m2 b2 r2.
            add_contact [n, p1] book = (Inr m1, b1) \<and>
            add_contact [n, p2] b1 = (Inr m2, b2) \<and>
            filter (\<lambda>(k, v). k = n) b2 = [(n, r2)] \<and>
            find_record b2 n = Some r2 \<and>
            phones r2 = phones (record_for book n) @ [p1, p2]"
    using s1 s2 by blast
  then show ?thesis
    using assms(1)
    by (simp add: add_record_def find_dict_set_same find_dict_set_other distinct_dict_set)
qed

lemma valid1: "valid_phone (py ''1234567890'')"
  by (simp add: valid_phone_def py_def isdecimal_ascii)
lemma valid2: "valid_phone (py ''0987654321'')"
  by (simp add: valid_phone_def py_def isdecimal_ascii)

lemma ac1: "add_contact [py ''Jane'', py ''1234567890''] [] = (Inr (py ''Contact added.''),
       [(py ''Jane'', \<lparr>name = py ''Jane'', phones = [py ''1234567890''], birthday = None\<rparr>)])"
  using add_contact_ok [of "py ''Jane''" "py ''1234567890''" "[]" "[]"] valid1
  by (simp add: record_for_def find_record_def py_Cons)

theorem add_twice_one_record_witness:
  "distinct (map fst ([] :: AddressBook)) \<and> py ''Jane'' \<noteq> [] \<and>
   valid_phone (py ''1234567890'') \<and> valid_phone (py ''0987654321'') \<and>
   add_contact [py ''Jane'', py ''1234567890''] [] =
     (Inr (py ''Contact added.''),
       [(py ''Jane'', \<lparr>name = py ''Jane'', phones = [py ''1234567890''], birthday = None\<rparr>)]) \<and>
   add_contact [py ''Jane'', py ''0987654321'']
       [(py ''Jane'', \<lparr>name = py ''Jane'', phones = [py ''1234567890''], birthday = None\<rparr>)] =
     (Inr (py ''Contact updated.''),
       [(py ''Jane'', \<lparr>name = py ''Jane'', phones = [py ''1234567890'', py ''0987654321''],
           birthday = None\<rparr>)])"
proof -
  have d: "distinct (map fst ([] :: AddressBook))" by simp
  have n: "py ''Jane'' \<noteq> []" by (simp add: py_def)
  note t = add_twice_one_record [OF d n valid1 valid2, of "\<lparr>name = py ''Jane'', phones = [], birthday = None\<rparr>" "[]"]
  from t obtain m1 b1 m2 b2 r2 where
    a: "add_contact [py ''Jane'', py ''1234567890''] [] = (Inr m1, b1)" and
    b: "add_contact [py ''Jane'', py ''0987654321''] b1 = (Inr m2, b2)" and
    c: "filter (\<lambda>(k, v). k = py ''Jane'') b2 = [(py ''Jane'', r2)]" and
    e: "phones r2 = phones (record_for [] (py ''Jane'')) @ [py ''1234567890'', py ''0987654321'']"
    by blast
  have b1: "b1 = [(py ''Jane'', \<lparr>name = py ''Jane'', phones = [py ''1234567890''], birthday = None\<rparr>)]"
    and m1: "m1 = py ''Contact added.''"
    using a ac1 by simp_all
  have "add_contact [py ''Jane'', py ''0987654321''] b1 = (Inr (py ''Contact updated.''),
       [(py ''Jane'', \<lparr>name = py ''Jane'', phones = [py ''1234567890'', py ''0987654321''],
           birthday = None\<rparr>)])"
    unfolding b1 using add_contact_ok [OF n valid2, of "[]" "[(py ''Jane'', \<lparr>name = py ''Jane'', phones = [py ''1234567890''], birthday = None\<rparr>)]"]
    by (simp add: record_for_def find_record_def)
  then show ?thesis using d n valid1 valid2 ac1 b1 by simp
qed
section \<open>The invariant of the phones\<close>

lemma Record_init_valid: "Record_init n = Inr r \<Longrightarrow> record_valid r"
  by (auto simp: Record_init_def Name_init_def record_valid_def split: if_splits)

lemma add_phone_valid: "record_valid r \<Longrightarrow> add_phone r p = (outcome, r') \<Longrightarrow> record_valid r'"
  by (auto simp: add_phone_def Phone_init_iff record_valid_def split: if_splits)

lemma remove_phone_valid:
  "record_valid r \<Longrightarrow> remove_phone r p = (outcome, r') \<Longrightarrow> record_valid r'"
  by (auto simp: remove_phone_def record_valid_def split: option.splits)
     (blast dest: in_set_takeD in_set_dropD)+

lemma edit_phone_valid:
  "record_valid r \<Longrightarrow> edit_phone r p q = (outcome, r') \<Longrightarrow> record_valid r'"
  by (auto simp: edit_phone_def Phone_init_iff record_valid_def
      split: option.splits if_splits dest!: set_update_subset_insert [THEN subsetD])

lemma add_birthday_valid:
  "record_valid r \<Longrightarrow> add_birthday r s = (outcome, r') \<Longrightarrow> record_valid r'"
  by (auto simp: add_birthday_def record_valid_def split: sum.splits)

lemma record_step_valid: "record_step r r' \<Longrightarrow> record_valid r \<Longrightarrow> record_valid r'"
  by (induction rule: record_step.induct)
     (blast intro: add_phone_valid remove_phone_valid edit_phone_valid add_birthday_valid)+

lemma reachable_record_valid: "reachable_record r \<Longrightarrow> record_valid r"
  by (induction rule: reachable_record.induct) (auto intro: Record_init_valid record_step_valid)

lemma dict_set_valid: "phones_valid book \<Longrightarrow> record_valid v \<Longrightarrow> phones_valid (dict_set book k v)"
  using set_dict_set [of book k v] by (auto simp: phones_valid_def)

lemma dict_del_valid: "phones_valid book \<Longrightarrow> phones_valid (dict_del book k)"
  using set_dict_del [of book k] by (auto simp: phones_valid_def)

lemma find_record_valid: "phones_valid book \<Longrightarrow> find_record book n = Some r \<Longrightarrow> record_valid r"
  by (auto simp: phones_valid_def find_record_def dest: map_of_SomeD)

lemma add_contact_valid:
  "phones_valid book \<Longrightarrow> phones_valid (snd (add_contact_body args book))"
  by (auto simp: add_contact_body_def add_record_def
      split: list.splits option.splits sum.splits prod.splits
      intro!: dict_set_valid intro: find_record_valid add_phone_valid Record_init_valid)

lemma change_contact_valid:
  "phones_valid book \<Longrightarrow> phones_valid (snd (change_contact_body args book))"
  by (auto simp: change_contact_body_def
      split: list.splits option.splits sum.splits prod.splits
      intro!: dict_set_valid intro: find_record_valid edit_phone_valid)

lemma add_birthday_handler_valid:
  "phones_valid book \<Longrightarrow> phones_valid (snd (add_birthday_body args book))"
  by (auto simp: add_birthday_body_def
      split: list.splits option.splits sum.splits prod.splits
      intro!: dict_set_valid intro: find_record_valid add_birthday_valid)

lemma show_phones_same: "snd (show_phones_body args book) = book"
  by (auto simp: show_phones_body_def split: list.splits option.splits)

lemma show_all_same: "snd (show_all_body args book) = book"
  by (auto simp: show_all_body_def)

lemma show_birthday_same: "snd (show_birthday_body args book) = book"
  by (auto simp: show_birthday_body_def split: list.splits option.splits)

lemma birthdays_same: "snd (birthdays_body today args book) = book"
  by (auto simp: birthdays_body_def split: sum.splits)

lemma print_result_book: "print_result hr = Inr t \<Longrightarrow> book_after t = snd hr"
  by (auto simp: print_result_def split: prod.splits sum.splits)

lemma print_result_valid:
  "phones_valid (snd hr) \<Longrightarrow> print_result hr = Inr t \<Longrightarrow> phones_valid (book_after t)"
  using print_result_book [of hr t] by simp

lemma dispatch_valid:
  assumes "phones_valid book" and "dispatch today command args book = Inr t"
  shows "phones_valid (book_after t)"
proof -
  have h: "phones_valid (snd (add_contact args book))"
    "phones_valid (snd (change_contact args book))"
    "phones_valid (snd (show_phones args book))"
    "phones_valid (snd (show_all args book))"
    "phones_valid (snd (add_birthday_handler args book))"
    "phones_valid (snd (show_birthday args book))"
    "phones_valid (snd (birthdays today args book))"
    using assms(1)
    by (simp_all add: add_contact_def change_contact_def show_phones_def show_all_def
          add_birthday_handler_def show_birthday_def birthdays_def
          show_phones_same show_all_same show_birthday_same birthdays_same
          add_contact_valid change_contact_valid add_birthday_handler_valid)
  show ?thesis
    using assms h unfolding dispatch_def
    by (auto split: if_splits intro: print_result_valid)
qed

lemma main_turn_valid:
  assumes "phones_valid book" and "main_turn lower today user_input book = Inr t"
  shows "phones_valid (book_after t)"
  using assms
  by (auto simp: main_turn_def split: sum.splits prod.splits intro: dispatch_valid)

lemma reachable_valid: "reachable book \<Longrightarrow> phones_valid book"
proof (induction rule: reachable.induct)
  case start
  show ?case by (simp add: phones_valid_def)
next
  case (after_add_record book r)
  then show ?case
    by (simp add: add_record_def dict_set_valid reachable_record_valid)
next
  case (after_delete book n outcome book')
  then show ?case
    by (auto simp: delete_def dict_del_valid split: option.splits)
next
  case (after_method book n r r')
  then show ?case
    by (blast intro: dict_set_valid record_step_valid find_record_valid)
next
  case (after_command book lower today_date user_input t)
  then show ?case by (blast intro: main_turn_valid)
qed


lemma add_phone_rejects:
  "\<not> valid_phone q \<Longrightarrow>
     add_phone r q = (Inl (ValueError (py ''The phone should contain 10 digits'')), r)"
  by (simp add: add_phone_def Phone_init_iff)

lemma edit_phone_rejects:
  "\<not> valid_phone q \<Longrightarrow> isl (fst (edit_phone r p q)) \<and> snd (edit_phone r p q) = r"
  by (simp add: edit_phone_def Phone_init_iff split: option.splits)

text \<open>
  Claim C9.  In every reachable state of the book, every phone of every record is a
  string of exactly ten decimal digits.  A new record satisfies the invariant (it has no
  phones); \<open>add_phone\<close>, \<open>edit_phone\<close> and \<open>remove_phone\<close> preserve it, whether they return or
  raise; and a new value that is not a valid phone is rejected with the record left as it
  was.
\<close>

theorem phones_invariant:
  "(Record_init n = Inr r0 \<longrightarrow> record_valid r0) \<and>
   (record_valid r \<and>
      (add_phone r q = (outcome, r') \<or> edit_phone r p q = (outcome, r') \<or>
       remove_phone r p = (outcome, r')) \<longrightarrow> record_valid r') \<and>
   (\<not> valid_phone q \<longrightarrow>
      add_phone r q = (Inl (ValueError (py ''The phone should contain 10 digits'')), r) \<and>
      isl (fst (edit_phone r p q)) \<and> snd (edit_phone r p q) = r) \<and>
   (reachable book \<longrightarrow> phones_valid book)"
proof (intro conjI impI)
  assume "Record_init n = Inr r0"
  then show "record_valid r0" by (rule Record_init_valid)
next
  assume "record_valid r \<and>
      (add_phone r q = (outcome, r') \<or> edit_phone r p q = (outcome, r') \<or>
       remove_phone r p = (outcome, r'))"
  then show "record_valid r'"
    using add_phone_valid edit_phone_valid remove_phone_valid by blast
next
  assume "\<not> valid_phone q"
  then show "add_phone r q = (Inl (ValueError (py ''The phone should contain 10 digits'')), r)"
    by (rule add_phone_rejects)
next
  assume "\<not> valid_phone q"
  then show "isl (fst (edit_phone r p q))" by (simp add: edit_phone_rejects)
next
  assume "\<not> valid_phone q"
  then show "snd (edit_phone r p q) = r" by (simp add: edit_phone_rejects)
next
  assume "reachable book"
  then show "phones_valid book" by (rule reachable_valid)
qed

lemma jane_reachable:
  "reachable [(py ''Jane'', \<lparr>name = py ''Jane'', phones = [py ''1234567890''], birthday = None\<rparr>)]"
proof -
  have n: "py ''Jane'' \<noteq> []" by (simp add: py_def)
  have "reachable_record \<lparr>name = py ''Jane'', phones = [], birthday = None\<rparr>"
    using Record_init_ok [OF n] by (rule constructed)
  moreover have "add_phone \<lparr>name = py ''Jane'', phones = [], birthday = None\<rparr> (py ''1234567890'')
      = (Inr (), \<lparr>name = py ''Jane'', phones = [py ''1234567890''], birthday = None\<rparr>)"
    using valid1 by (simp add: add_phone_def Phone_init_iff)
  ultimately have "reachable_record \<lparr>name = py ''Jane'', phones = [py ''1234567890''], birthday = None\<rparr>"
    by (blast intro: mutated by_add_phone)
  then have "reachable (add_record [] \<lparr>name = py ''Jane'', phones = [py ''1234567890''], birthday = None\<rparr>)"
    using start by (rule after_add_record [rotated])
  then show ?thesis by (simp add: add_record_def)
qed

theorem phones_invariant_witness:
  "Record_init (py ''Jane'') = Inr \<lparr>name = py ''Jane'', phones = [], birthday = None\<rparr> \<and>
   record_valid \<lparr>name = py ''Jane'', phones = [], birthday = None\<rparr> \<and>
   add_phone \<lparr>name = py ''Jane'', phones = [], birthday = None\<rparr> (py ''1234567890'') =
     (Inr (), \<lparr>name = py ''Jane'', phones = [py ''1234567890''], birthday = None\<rparr>) \<and>
   record_valid \<lparr>name = py ''Jane'', phones = [py ''1234567890''], birthday = None\<rparr> \<and>
   \<not> valid_phone (py ''12-34'') \<and>
   add_phone \<lparr>name = py ''Jane'', phones = [py ''1234567890''], birthday = None\<rparr> (py ''12-34'') =
     (Inl (ValueError (py ''The phone should contain 10 digits'')),
      \<lparr>name = py ''Jane'', phones = [py ''1234567890''], birthday = None\<rparr>) \<and>
   reachable [(py ''Jane'', \<lparr>name = py ''Jane'', phones = [py ''1234567890''], birthday = None\<rparr>)] \<and>
   phones_valid [(py ''Jane'', \<lparr>name = py ''Jane'', phones = [py ''1234567890''], birthday = None\<rparr>)]"
proof -
  let ?r0 = "\<lparr>name = py ''Jane'', phones = [], birthday = None\<rparr>"
  let ?r1 = "\<lparr>name = py ''Jane'', phones = [py ''1234567890''], birthday = None\<rparr>"
  have n: "py ''Jane'' \<noteq> []" by (simp add: py_def)
  have i: "Record_init (py ''Jane'') = Inr ?r0" using n by (rule Record_init_ok)
  have a: "add_phone ?r0 (py ''1234567890'') = (Inr (), ?r1)"
    using valid1 by (simp add: add_phone_def Phone_init_iff)
  have b: "\<not> valid_phone (py ''12-34'')" by (simp add: valid_phone_def py_def)
  note t1 = phones_invariant [of "py ''Jane''" ?r0 ?r0 "py ''1234567890''" "Inr ()" ?r1 "[]" "[]"]
  note t2 = phones_invariant [of "py ''Jane''" ?r0 ?r1 "py ''12-34''" "Inr ()" ?r1 "[]"
      "[(py ''Jane'', ?r1)]"]
  have v0: "record_valid ?r0" using t1 i by blast
  have v1: "record_valid ?r1" using t1 v0 a by blast
  have rej: "add_phone ?r1 (py ''12-34'') =
     (Inl (ValueError (py ''The phone should contain 10 digits'')), ?r1)"
    using t2 b by blast
  have pv: "phones_valid [(py ''Jane'', ?r1)]" using t2 jane_reachable by blast
  show ?thesis using i v0 a v1 b rej jane_reachable pv by simp
qed

section \<open>Birthdays\<close>

lemma todecimal_ascii: "d \<le> 9 \<Longrightarrow> todecimal (48 + d) = Some d"
  by (simp add: todecimal_def decimal_zeros_def)

lemma isdecimal_digit: "d \<le> 9 \<Longrightarrow> isdecimal (48 + d)"
  by (simp add: isdecimal_def todecimal_ascii)

lemma not_isspace_digit: "d \<le> 9 \<Longrightarrow> \<not> isspace (48 + d)"
  by (simp add: isspace_def)

lemma rx_d_two_digits:
  assumes "d1 \<le> 9" and "d2 \<le> 9" and "1 \<le> 10 * d1 + d2" and "10 * d1 + d2 \<le> 31"
  shows "rmatch (Seq rx_d (Seq (Chr 46) X)) (c, (48 + d1) # (48 + d2) # 46 # rest) =
         rmatch X ((''d'', [48 + d1, 48 + d2]) # c, rest)"
proof -
  have "d1 = 0 \<or> d1 = 1 \<or> d1 = 2 \<or> d1 = 3" using assms by arith
  then show ?thesis
    using assms by (elim disjE) (simp_all add: rx_d_def one_char_def isdecimal_digit)
qed

lemma rx_m_two_digits:
  assumes "m1 \<le> 9" and "m2 \<le> 9" and "1 \<le> 10 * m1 + m2" and "10 * m1 + m2 \<le> 12"
  shows "rmatch (Seq rx_m (Seq (Chr 46) X)) (c, (48 + m1) # (48 + m2) # 46 # rest) =
         rmatch X ((''m'', [48 + m1, 48 + m2]) # c, rest)"
proof -
  have "m1 = 0 \<or> m1 = 1" using assms by arith
  then show ?thesis
    using assms by (elim disjE) (simp_all add: rx_m_def one_char_def)
qed

lemma rx_Y_four_digits:
  assumes "y1 \<le> 9" and "y2 \<le> 9" and "y3 \<le> 9" and "y4 \<le> 9"
  shows "rmatch rx_Y (c, [48 + y1, 48 + y2, 48 + y3, 48 + y4]) =
         [((''Y'', [48 + y1, 48 + y2, 48 + y3, 48 + y4]) # c, [])]"
  using assms by (simp add: rx_Y_def one_char_def isdecimal_digit)

lemma py_int_two: "a \<le> 9 \<Longrightarrow> b \<le> 9 \<Longrightarrow> py_int [48 + a, 48 + b] = Inr (int (10 * a + b))"
  by (simp add: py_int_def not_isspace_digit isdecimal_digit digits_value_def todecimal_ascii)

lemma py_int_four:
  "a \<le> 9 \<Longrightarrow> b \<le> 9 \<Longrightarrow> c \<le> 9 \<Longrightarrow> d \<le> 9 \<Longrightarrow>
   py_int [48 + a, 48 + b, 48 + c, 48 + d] = Inr (int (1000 * a + 100 * b + 10 * c + d))"
  by (simp add: py_int_def not_isspace_digit isdecimal_digit digits_value_def todecimal_ascii)

lemma date_new_valid:
  "valid_date \<lparr>year = y, month = m, day = d\<rparr> \<Longrightarrow> date_new y m d = Inr \<lparr>year = y, month = m, day = d\<rparr>"
  by (simp add: valid_date_def date_new_def)

lemma days_in_month_le: "days_in_month y m \<le> 31 \<or> m < 1 \<or> 12 < m"
proof (cases "1 \<le> m \<and> m \<le> 12")
  case True
  then have "m = 1 \<or> m = 2 \<or> m = 3 \<or> m = 4 \<or> m = 5 \<or> m = 6 \<or> m = 7 \<or> m = 8 \<or> m = 9
      \<or> m = 10 \<or> m = 11 \<or> m = 12" by arith
  then show ?thesis
    by (elim disjE) (simp_all add: days_in_month_def DAYS_IN_MONTH_def)
next
  case False
  then show ?thesis by auto
qed

lemma strptime_well_formed:
  assumes dig: "d1 \<le> 9" "d2 \<le> 9" "m1 \<le> 9" "m2 \<le> 9" "y1 \<le> 9" "y2 \<le> 9" "y3 \<le> 9" "y4 \<le> 9"
    and v: "valid_date (date_of_digits d1 d2 m1 m2 y1 y2 y3 y4)"
  shows "strptime_dmY (dd_mm_yyyy d1 d2 m1 m2 y1 y2 y3 y4) =
         Inr (date_of_digits d1 d2 m1 m2 y1 y2 y3 y4)"
proof -
  from v have m: "1 \<le> 10 * m1 + m2" "10 * m1 + m2 \<le> 12"
    by (simp_all add: valid_date_def date_of_digits_def)
  from v have d: "1 \<le> 10 * d1 + d2" "int (10 * d1 + d2) \<le> days_in_month (year (date_of_digits d1 d2 m1 m2 y1 y2 y3 y4)) (int (10 * m1 + m2))"
    by (simp_all add: valid_date_def date_of_digits_def)
  have d31: "10 * d1 + d2 \<le> 31"
    using d(2) m days_in_month_le [of "year (date_of_digits d1 d2 m1 m2 y1 y2 y3 y4)" "int (10 * m1 + m2)"]
    by linarith
  have "rmatch format_regex ([], dd_mm_yyyy d1 d2 m1 m2 y1 y2 y3 y4) =
        [([(''Y'', [48 + y1, 48 + y2, 48 + y3, 48 + y4]), (''m'', [48 + m1, 48 + m2]),
           (''d'', [48 + d1, 48 + d2])], [])]"
    unfolding format_regex_def dd_mm_yyyy_def
    by (simp only: rx_d_two_digits [OF dig(1,2) d(1) d31] rx_m_two_digits [OF dig(3,4) m]
        rx_Y_four_digits [OF dig(5-8)])
  then have "re_match format_regex (dd_mm_yyyy d1 d2 m1 m2 y1 y2 y3 y4) =
      Some ([(''Y'', [48 + y1, 48 + y2, 48 + y3, 48 + y4]), (''m'', [48 + m1, 48 + m2]),
           (''d'', [48 + d1, 48 + d2])], [])"
    by (simp add: re_match_def)
  then show ?thesis
    using dig date_new_valid [of "int (1000 * y1 + 100 * y2 + 10 * y3 + y4)" "int (10 * m1 + m2)" "int (10 * d1 + d2)"] v
    by (simp add: strptime_dmY_def group_int_def py_int_two py_int_four date_of_digits_def)
qed

lemma Birthday_init_well_formed:
  assumes "d1 \<le> 9" "d2 \<le> 9" "m1 \<le> 9" "m2 \<le> 9" "y1 \<le> 9" "y2 \<le> 9" "y3 \<le> 9" "y4 \<le> 9"
    and "valid_date (date_of_digits d1 d2 m1 m2 y1 y2 y3 y4)"
  shows "Birthday_init (dd_mm_yyyy d1 d2 m1 m2 y1 y2 y3 y4) =
         Inr (date_of_digits d1 d2 m1 m2 y1 y2 y3 y4)"
  using strptime_well_formed [OF assms] by (simp add: Birthday_init_def)

lemmas date_eval = Birthday_init_def strptime_dmY_def re_match_def format_regex_def rx_d_def
  rx_m_def rx_Y_def one_char_def py_def isdecimal_def todecimal_def decimal_zeros_def
  group_int_def py_int_def isspace_def digits_value_def date_new_def MINYEAR_def MAXYEAR_def
  days_in_month_def is_leap_def DAYS_IN_MONTH_def

lemma Birthday_init_31_02:
  "Birthday_init (py ''31.02.2020'') =
     Inl (ValueError (py ''Invalid date format. Use DD.MM.YYYY''))"
  by (simp add: date_eval)

lemma Birthday_init_00_01:
  "Birthday_init (py ''00.01.2020'') =
     Inl (ValueError (py ''Invalid date format. Use DD.MM.YYYY''))"
  by (simp add: date_eval)

lemma Birthday_init_1_1:
  "Birthday_init (py ''1.1.2020'') = Inr \<lparr>year = 2020, month = 1, day = 1\<rparr>"
  by (simp add: date_eval)

text \<open>
  Claim C3.  The \<open>Birthday\<close> constructor is to succeed for every well-formed
  \<open>DD.MM.YYYY\<close> string that denotes a real date and to fail for \<open>31.02.2020\<close>,
  \<open>00.01.2020\<close> and \<open>1.1.2020\<close>.  The first part and the first two failures hold (lemmas
  \<open>Birthday_init_well_formed\<close>, \<open>Birthday_init_31_02\<close> and \<open>Birthday_init_00_01\<close>).  The
  third does not: the docstring of \<open>Birthday\<close> says that it validates the \<open>DD.MM.YYYY\<close>
  format, and its message asks for \<open>DD.MM.YYYY\<close>, but \<open>strptime\<close> takes a day and a month
  of one digit, so the constructor accepts \<open>1.1.2020\<close> and stores the first of January
  2020 instead of raising.
\<close>

theorem validate_birthday_unpadded_accepted:
  "Birthday_init (py ''1.1.2020'') = Inr \<lparr>year = 2020, month = 1, day = 1\<rparr> \<and>
   Birthday_init (py ''1.1.2020'') \<noteq>
     Inl (ValueError (py ''Invalid date format. Use DD.MM.YYYY''))"
  by (simp add: Birthday_init_1_1)

section \<open>Ordinals of valid dates\<close>

lemma sat_room: "(n::int) \<le> 3652059 \<Longrightarrow> (n + 6) mod 7 = 5 \<Longrightarrow> n + 2 \<le> 3652059"
  by arith

lemma sun_room: "(n::int) \<le> 3652059 \<Longrightarrow> (n + 6) mod 7 = 6 \<Longrightarrow> n + 1 \<le> 3652059"
  by arith

lemma div_succ:
  assumes "0 < (k::int)"
  shows "y div k = (y - 1) div k + (if y mod k = 0 then 1 else 0)"
proof (cases "y mod k = 0")
  case True
  have "y = k * (y div k) + y mod k" by simp
  with True have "y - 1 = k * (y div k - 1) + (k - 1)"
    by (simp add: algebra_simps)
  then have "(y - 1) div k = y div k - 1"
    using assms int_div_pos_eq [of "y - 1" k "y div k - 1" "k - 1"] by simp
  with True show ?thesis by simp
next
  case False
  have m: "0 \<le> y mod k" "y mod k < k" using assms by simp_all
  have "y = k * (y div k) + y mod k" by simp
  then have "y - 1 = k * (y div k) + (y mod k - 1)" by simp
  then have "(y - 1) div k = y div k"
    using m False int_div_pos_eq [of "y - 1" k "y div k" "y mod k - 1"] by simp
  with False show ?thesis by simp
qed

lemma mod_400_100:
  assumes "(y::int) mod 400 = 0"
  shows "y mod 100 = 0"
proof -
  have "(400::int) dvd y" using assms by (simp add: mod_eq_0_iff_dvd)
  then have "(100::int) dvd y" using dvd_trans [of 100 400 y] by simp
  then show ?thesis by (simp add: mod_eq_0_iff_dvd)
qed

lemma mod_100_4:
  assumes "(y::int) mod 100 = 0"
  shows "y mod 4 = 0"
proof -
  have "(100::int) dvd y" using assms by (simp add: mod_eq_0_iff_dvd)
  then have "(4::int) dvd y" using dvd_trans [of 4 100 y] by simp
  then show ?thesis by (simp add: mod_eq_0_iff_dvd)
qed

lemma days_before_year_next:
  "days_before_year (y + 1) = days_before_year y + (if is_leap y then 366 else 365)"
proof -
  define p4 where "p4 = (y - 1) div 4"
  define p100 where "p100 = (y - 1) div 100"
  define p400 where "p400 = (y - 1) div 400"
  have e4: "y div 4 = p4 + (if y mod 4 = 0 then 1 else 0)"
    unfolding p4_def by (rule div_succ) simp
  have e100: "y div 100 = p100 + (if y mod 100 = 0 then 1 else 0)"
    unfolding p100_def by (rule div_succ) simp
  have e400: "y div 400 = p400 + (if y mod 400 = 0 then 1 else 0)"
    unfolding p400_def by (rule div_succ) simp
  consider (plain) "y mod 4 \<noteq> 0" | (fourth) "y mod 4 = 0" "y mod 100 \<noteq> 0"
    | (century) "y mod 100 = 0" "y mod 400 \<noteq> 0" | (fourth_century) "y mod 400 = 0"
    by fast
  then have l: "y div 4 - y div 100 + y div 400 =
           p4 - p100 + p400 + (if is_leap y then 1 else 0)"
  proof cases
    case plain
    then have m: "y mod 100 \<noteq> 0" "y mod 400 \<noteq> 0"
      using mod_400_100 [of y] mod_100_4 [of y] by fast+
    have "\<not> is_leap y" by (simp only: is_leap_def plain simp_thms)
    then show ?thesis
      unfolding e4 e100 e400 by (simp only: plain m if_False; simp)
  next
    case fourth
    then have m: "y mod 400 \<noteq> 0" using mod_400_100 [of y] by fast
    have "is_leap y" by (simp only: is_leap_def fourth simp_thms)
    then show ?thesis
      unfolding e4 e100 e400 by (simp only: fourth m if_True if_False; simp)
  next
    case century
    then have m: "y mod 4 = 0" using mod_100_4 [of y] by fast
    have "\<not> is_leap y" by (simp only: is_leap_def century m simp_thms)
    then show ?thesis
      unfolding e4 e100 e400 by (simp only: century m if_True if_False; simp)
  next
    case fourth_century
    then have m: "y mod 100 = 0" "y mod 4 = 0"
      using mod_400_100 [of y] mod_100_4 [of y] by fast+
    have "is_leap y" by (simp only: is_leap_def fourth_century m simp_thms)
    then show ?thesis
      unfolding e4 e100 e400 by (simp only: fourth_century m if_True if_False; simp)
  qed
  have a: "days_before_year (y + 1) = y * 365 + (y div 4 - y div 100 + y div 400)"
    by (simp add: days_before_year_def)
  have b: "days_before_year y = (y - 1) * 365 + (p4 - p100 + p400)"
    by (simp add: days_before_year_def p4_def p100_def p400_def)
  show ?thesis
    unfolding a b l by (simp add: algebra_simps)
qed

lemma days_before_year_mono: "y \<le> y' \<Longrightarrow> days_before_year y \<le> days_before_year y'"
proof (induction y' rule: int_ge_induct)
  case base
  show ?case by simp
next
  case (step i)
  then show ?case using days_before_year_next [of i] by (simp split: if_splits)
qed

lemma three_cases: "(a::int) \<le> m \<Longrightarrow> m \<le> a + 2 \<Longrightarrow> m = a \<or> m = a + 1 \<or> m = a + 2"
  by arith

lemma month_cases:
  assumes "1 \<le> (m::int)" and "m \<le> 12"
  shows "m = 1 \<or> m = 2 \<or> m = 3 \<or> m = 4 \<or> m = 5 \<or> m = 6 \<or> m = 7 \<or> m = 8 \<or> m = 9 \<or> m = 10
     \<or> m = 11 \<or> m = 12"
proof -
  consider "m \<le> 3" | "4 \<le> m \<and> m \<le> 6" | "7 \<le> m \<and> m \<le> 9" | "10 \<le> m"
    by linarith
  then show ?thesis
  proof cases
    case 1
    then show ?thesis using assms three_cases [of 1 m] by simp
  next
    case 2
    then show ?thesis using three_cases [of 4 m] by simp
  next
    case 3
    then show ?thesis using three_cases [of 7 m] by simp
  next
    case 4
    then show ?thesis using assms three_cases [of 10 m] by simp
  qed
qed

lemma day_of_year_bound:
  assumes "1 \<le> m" and "m \<le> 12" and "1 \<le> d" and "d \<le> days_in_month y m"
  shows "1 \<le> days_before_month y m + d \<and>
         days_before_month y m + d \<le> (if is_leap y then 366 else 365)"
  using month_cases [OF assms(1,2)] assms(3,4)
  by (elim disjE)
     (simp_all add: days_before_month_def days_in_month_def DAYS_BEFORE_MONTH_def
        DAYS_IN_MONTH_def split: if_splits)

lemma toordinal_range:
  assumes "valid_date c"
  shows "1 \<le> toordinal c \<and> toordinal c \<le> MAXORDINAL"
proof -
  from assms have y: "1 \<le> year c" "year c + 1 \<le> 10000"
    and md: "1 \<le> month c" "month c \<le> 12" "1 \<le> day c"
      "day c \<le> days_in_month (year c) (month c)"
    by (simp_all add: valid_date_def MINYEAR_def MAXYEAR_def)
  have lo: "days_before_year 1 \<le> days_before_year (year c)"
    using y(1) by (rule days_before_year_mono)
  have hi: "days_before_year (year c + 1) \<le> days_before_year 10000"
    using y(2) by (rule days_before_year_mono)
  have z: "days_before_year 1 = 0" "days_before_year 10000 = 3652059"
    by (simp_all add: days_before_year_def)
  show ?thesis
    using lo hi z day_of_year_bound [OF md] days_before_year_next [of "year c"]
    by (simp add: toordinal_def ymd2ord_def MAXORDINAL_def split: if_splits)
qed

lemma add_days_saturday:
  "valid_date c \<Longrightarrow> weekday c = 5 \<Longrightarrow> add_days c 2 = Inr (plus_days c 2)"
  using toordinal_range [of c] sat_room [of "toordinal c"]
  by (simp add: add_days_def plus_days_def weekday_def MAXORDINAL_def)

lemma add_days_sunday:
  "valid_date c \<Longrightarrow> weekday c = 6 \<Longrightarrow> add_days c 1 = Inr (plus_days c 1)"
  using toordinal_range [of c] sun_room [of "toordinal c"]
  by (simp add: add_days_def plus_days_def weekday_def MAXORDINAL_def)

section \<open>The date of an ordinal\<close>









section \<open>Upcoming birthdays\<close>

lemma date_new_invalid:
  "\<not> valid_date \<lparr>year = y, month = m, day = d\<rparr> \<Longrightarrow> \<exists>msg. date_new y m d = Inl (ValueError msg)"
  by (auto simp: date_new_def valid_date_def)

lemma loop_none:
  "birthday r = None \<Longrightarrow> upcoming_loop today (r # rs) acc = upcoming_loop today rs acc"
  by simp

lemma shift_no_overflow:
  assumes "valid_date c"
  shows "(if weekday c = 5 then add_days c 2 else if weekday c = 6 then add_days c 1 else Inr c)
         = Inr (shifted c)"
  using assms by (simp add: shifted_def add_days_saturday add_days_sunday)

lemma candidate_step:
  assumes "dates_exist today b"
  shows "replace_year b (year today) = Inr (this_year_date today b)"
    and "(if date_lt (this_year_date today b) today
          then replace_year (this_year_date today b) (year today + 1)
          else Inr (this_year_date today b)) = Inr (candidate today b)"
  using assms
  by (auto simp: dates_exist_def replace_year_def this_year_date_def candidate_def
      target_year_def date_new_valid)

lemma loop_exists:
  assumes "birthday r = Some b" and "dates_exist today b"
  shows "upcoming_loop today (r # rs) acc =
         upcoming_loop today rs (if in_window today b then acc @ [expected_entry today r] else acc)"
proof -
  have v: "valid_date (candidate today b)" using assms(2) by (simp add: dates_exist_def)
  show ?thesis
    by (simp only: upcoming_loop.simps assms(1) option.case candidate_step [OF assms(2)]
        sum.case shift_no_overflow [OF v] Let_def)
       (simp add: in_window_def expected_entry_def assms(1))
qed

lemma loop_fails:
  assumes "birthday r = Some b" and "\<not> dates_exist today b"
  shows "\<exists>msg. upcoming_loop today (r # rs) acc = Inl (ValueError msg)"
proof (cases "valid_date (this_year_date today b)")
  case False
  then obtain msg where "replace_year b (year today) = Inl (ValueError msg)"
    using date_new_invalid [of "year today" "month b" "day b"]
    by (auto simp: replace_year_def this_year_date_def)
  then show ?thesis by (simp add: assms(1))
next
  case True
  then have a: "replace_year b (year today) = Inr (this_year_date today b)"
    by (simp add: replace_year_def this_year_date_def date_new_valid)
  from True assms(2) have nv: "\<not> valid_date (candidate today b)"
    by (simp add: dates_exist_def)
  with True have lt: "date_lt (this_year_date today b) today"
    by (auto simp: candidate_def target_year_def this_year_date_def split: if_splits)
  then have "candidate today b = \<lparr>year = year today + 1, month = month b, day = day b\<rparr>"
    by (simp add: candidate_def target_year_def)
  with nv obtain msg where
    "replace_year (this_year_date today b) (year today + 1) = Inl (ValueError msg)"
    using date_new_invalid [of "year today + 1" "month b" "day b"]
    by (auto simp: replace_year_def this_year_date_def)
  then show ?thesis by (simp add: assms(1) a lt)
qed

lemma loop_all_exist:
  "(\<forall>r \<in> set rs. \<forall>b. birthday r = Some b \<longrightarrow> dates_exist today b) \<Longrightarrow>
   upcoming_loop today rs acc =
     Inr (acc @ map (expected_entry today) (filter (has_upcoming today) rs))"
proof (induction rs arbitrary: acc)
  case Nil
  show ?case by simp
next
  case (Cons r rs)
  show ?case
  proof (cases "birthday r")
    case None
    then show ?thesis using Cons by (simp add: has_upcoming_def)
  next
    case (Some b)
    then have "dates_exist today b" using Cons.prems by simp
    then show ?thesis
      using Some Cons by (simp add: loop_exists has_upcoming_def del: upcoming_loop.simps)
  qed
qed

lemma loop_some_missing:
  "r \<in> set rs \<Longrightarrow> birthday r = Some b \<Longrightarrow> \<not> dates_exist today b \<Longrightarrow>
   \<exists>msg. upcoming_loop today rs acc = Inl (ValueError msg)"
proof (induction rs arbitrary: acc)
  case Nil
  then show ?case by simp
next
  case (Cons x rs)
  show ?case
  proof (cases "birthday x")
    case None
    then have "r \<in> set rs" using Cons.prems by auto
    then show ?thesis using Cons None by (simp del: upcoming_loop.simps add: loop_none)
  next
    case (Some bx)
    show ?thesis
    proof (cases "dates_exist today bx")
      case False
      then show ?thesis using Some by (rule loop_fails [rotated])
    next
      case True
      then have "r \<in> set rs" using Cons.prems Some by auto
      then show ?thesis
        using Cons Some True by (simp del: upcoming_loop.simps add: loop_exists)
    qed
  qed
qed


lemmas calendar_eval = toordinal_def ymd2ord_def days_before_year_def days_before_month_def
  DAYS_BEFORE_MONTH_def DAYS_IN_MONTH_def days_in_month_def is_leap_def weekday_def
  days_between_def date_lt_def valid_date_def MINYEAR_def MAXYEAR_def
  this_year_date_def target_year_def candidate_def dates_exist_def in_window_def


text \<open>
  Claim C1, amended.  Whenever, for every record with a birthday, the day and month of
  the birthday exist as a date in today's year, and in the following year when the date
  of this year is before today, \<open>get_upcoming_birthdays\<close> returns a list, and the names in
  it are, in the order of the book, those of exactly the records with a birthday whose
  candidate date is at least 0 and at most 7 days after today.  (The condition fails only
  for a birthday on 29 February and for a following year beyond 9999.)
\<close>

theorem upcoming_selection:
  assumes "\<forall>r \<in> set (dict_values book). \<forall>b. birthday r = Some b \<longrightarrow> dates_exist today b"
  shows "\<exists>res. get_upcoming_birthdays today book = Inr res \<and>
           map entry_name res = map name (filter (has_upcoming today) (dict_values book))"
  using loop_all_exist [OF assms, of "[]"]
  by (simp add: get_upcoming_birthdays_def expected_entry_def comp_def)

lemma june_10: "dates_exist \<lparr>year = 2024, month = 6, day = 10\<rparr> \<lparr>year = 1990, month = 6, day = 15\<rparr>"
  by (simp add: calendar_eval)

lemma june_15_in: "in_window \<lparr>year = 2024, month = 6, day = 10\<rparr> \<lparr>year = 1990, month = 6, day = 15\<rparr>"
  by (simp add: calendar_eval)

lemma june_08_exists: "dates_exist \<lparr>year = 2024, month = 6, day = 10\<rparr> \<lparr>year = 1990, month = 6, day = 8\<rparr>"
  by (simp add: calendar_eval)

lemma june_08_out: "\<not> in_window \<lparr>year = 2024, month = 6, day = 10\<rparr> \<lparr>year = 1990, month = 6, day = 8\<rparr>"
  by (simp add: calendar_eval)





theorem upcoming_selection_witness:
  "dates_exist \<lparr>year = 2024, month = 6, day = 10\<rparr> \<lparr>year = 1990, month = 6, day = 8\<rparr> \<and>
   dates_exist \<lparr>year = 2024, month = 6, day = 10\<rparr> \<lparr>year = 1990, month = 6, day = 15\<rparr> \<and>
   (\<exists>res. get_upcoming_birthdays \<lparr>year = 2024, month = 6, day = 10\<rparr>
     [(py ''Bob'', \<lparr>name = py ''Bob'', phones = [],
         birthday = Some \<lparr>year = 1990, month = 6, day = 8\<rparr>\<rparr>),
      (py ''Jane'', \<lparr>name = py ''Jane'', phones = [],
         birthday = Some \<lparr>year = 1990, month = 6, day = 15\<rparr>\<rparr>)] = Inr res \<and>
      map entry_name res = [py ''Jane''])"
proof -
  let ?book = "[(py ''Bob'', \<lparr>name = py ''Bob'', phones = [],
         birthday = Some \<lparr>year = 1990, month = 6, day = 8\<rparr>\<rparr>),
      (py ''Jane'', \<lparr>name = py ''Jane'', phones = [],
         birthday = Some \<lparr>year = 1990, month = 6, day = 15\<rparr>\<rparr>)]"
  have h: "\<forall>r \<in> set (dict_values ?book). \<forall>b. birthday r = Some b \<longrightarrow>
      dates_exist \<lparr>year = 2024, month = 6, day = 10\<rparr> b"
    by (simp add: dict_values_def june_10 june_08_exists)
  show ?thesis
    using upcoming_selection [OF h] june_10 june_08_exists
    by (simp add: dict_values_def has_upcoming_def june_15_in june_08_out)
qed

lemmas loop_eval = get_upcoming_birthdays_def dict_values_def replace_year_def date_new_def
  add_days_def MAXORDINAL_def

text \<open>
  Claim C1, as stated for every book and every date, fails: with a birthday on 29
  February in the book and today = 2023-06-10, the call raises, although the record
  with the birthday 12.06.1990 has its candidate date two days after today.
\<close>

theorem upcoming_selection_counterexample:
  "get_upcoming_birthdays \<lparr>year = 2023, month = 6, day = 10\<rparr>
     [(py ''Ann'', \<lparr>name = py ''Ann'', phones = [],
         birthday = Some \<lparr>year = 2000, month = 2, day = 29\<rparr>\<rparr>),
      (py ''Jane'', \<lparr>name = py ''Jane'', phones = [],
         birthday = Some \<lparr>year = 1990, month = 6, day = 12\<rparr>\<rparr>)] =
     Inl (ValueError (py ''day is out of range for month'')) \<and>
   filter (has_upcoming \<lparr>year = 2023, month = 6, day = 10\<rparr>)
     (dict_values
       [(py ''Ann'', \<lparr>name = py ''Ann'', phones = [],
           birthday = Some \<lparr>year = 2000, month = 2, day = 29\<rparr>\<rparr>),
        (py ''Jane'', \<lparr>name = py ''Jane'', phones = [],
           birthday = Some \<lparr>year = 1990, month = 6, day = 12\<rparr>\<rparr>)]) =
     [\<lparr>name = py ''Jane'', phones = [],
        birthday = Some \<lparr>year = 1990, month = 6, day = 12\<rparr>\<rparr>]"
  by (simp add: loop_eval has_upcoming_def calendar_eval)






lemma feb_29_missing:
  assumes "month b = 2" and "day b = 29"
    and "\<not> is_leap (year today) \<or> \<not> is_leap (target_year today b)"
  shows "\<not> dates_exist today b"
  using assms
  by (auto simp: dates_exist_def valid_date_def this_year_date_def candidate_def
      days_in_month_def DAYS_IN_MONTH_def)

text \<open>
  Claim C7.  If some record of the book has its birthday on 29 February, and today's year
  or the year of the candidate is not a leap year, \<open>get_upcoming_birthdays\<close> raises a
  \<open>ValueError\<close> from the construction of a date; it returns no list, so the record is
  neither skipped nor moved to another day.
\<close>

theorem feb_29_raises:
  assumes "(k, r) \<in> set book" and "birthday r = Some b" and "month b = 2" and "day b = 29"
    and "\<not> is_leap (year today) \<or> \<not> is_leap (target_year today b)"
  shows "\<exists>msg. get_upcoming_birthdays today book = Inl (ValueError msg)"
proof -
  have "r \<in> set (dict_values book)"
    using assms(1) by (force simp: dict_values_def)
  then show ?thesis
    unfolding get_upcoming_birthdays_def
    using assms(2) feb_29_missing [OF assms(3-5)] by (rule loop_some_missing)
qed

theorem feb_29_raises_witness:
  "\<not> is_leap (year \<lparr>year = 2023, month = 1, day = 10\<rparr>) \<and>
   get_upcoming_birthdays \<lparr>year = 2023, month = 1, day = 10\<rparr>
     [(py ''Ann'', \<lparr>name = py ''Ann'', phones = [],
         birthday = Some \<lparr>year = 2000, month = 2, day = 29\<rparr>\<rparr>)] =
     Inl (ValueError (py ''day is out of range for month'')) \<and>
   is_leap (year \<lparr>year = 2024, month = 3, day = 1\<rparr>) \<and>
   target_year \<lparr>year = 2024, month = 3, day = 1\<rparr> \<lparr>year = 2000, month = 2, day = 29\<rparr> = 2025 \<and>
   get_upcoming_birthdays \<lparr>year = 2024, month = 3, day = 1\<rparr>
     [(py ''Ann'', \<lparr>name = py ''Ann'', phones = [],
         birthday = Some \<lparr>year = 2000, month = 2, day = 29\<rparr>\<rparr>)] =
     Inl (ValueError (py ''day is out of range for month''))"
proof -
  let ?ann = "\<lparr>name = py ''Ann'', phones = [],
         birthday = Some \<lparr>year = 2000, month = 2, day = 29\<rparr>\<rparr>"
  let ?b = "\<lparr>year = 2000, month = 2, day = 29\<rparr>"
  have m: "(py ''Ann'', ?ann) \<in> set [(py ''Ann'', ?ann)]" "birthday ?ann = Some ?b"
    "month ?b = 2" "day ?b = 29"
    by simp_all
  have a: "\<not> is_leap (year \<lparr>year = 2023, month = 1, day = 10\<rparr>) \<or>
      \<not> is_leap (target_year \<lparr>year = 2023, month = 1, day = 10\<rparr> ?b)"
    by (simp add: is_leap_def)
  have b: "\<not> is_leap (year \<lparr>year = 2024, month = 3, day = 1\<rparr>) \<or>
      \<not> is_leap (target_year \<lparr>year = 2024, month = 3, day = 1\<rparr> ?b)"
    by (simp add: calendar_eval)
  from feb_29_raises [OF m a] obtain msg1 where
    r1: "get_upcoming_birthdays \<lparr>year = 2023, month = 1, day = 10\<rparr> [(py ''Ann'', ?ann)] =
       Inl (ValueError msg1)" by blast
  from feb_29_raises [OF m b] obtain msg2 where
    r2: "get_upcoming_birthdays \<lparr>year = 2024, month = 3, day = 1\<rparr> [(py ''Ann'', ?ann)] =
       Inl (ValueError msg2)" by blast
  have "msg1 = py ''day is out of range for month''"
    using r1 by (simp add: loop_eval calendar_eval)
  moreover have "msg2 = py ''day is out of range for month''"
    using r2 by (simp add: loop_eval calendar_eval)
  ultimately show ?thesis
    using r1 r2 by (simp add: calendar_eval)
qed

end
